theory Spec2Isabelle
  imports Complex_Main "HOL-Library.Sublist" "HOL-Library.AList" "HOL-Library.Log_Nat"
begin

section \<open>Formula evaluator for parametric cabinet design\<close>

text \<open>
  A shallow embedding of \<^verbatim>\<open>backend/utils/formulaEvaluator.js\<close>: the validator
  \<^verbatim>\<open>validateFormula\<close>, the evaluator \<^verbatim>\<open>evaluateFormula\<close> and the composition
  \<^verbatim>\<open>evaluatePartDimensions\<close>.

  Conventions of the embedding.
  \<^item> A JavaScript string is a \<open>string\<close>: a list of code units below 256 (Latin-1).
  \<^item> A JavaScript number is a \<open>jsnum\<close>: a finite IEEE-754 double carried by the rational
    it denotes, the negative zero, the two infinities or NaN. Arithmetic rounds to the
    nearest double, ties to even.
  \<^item> An object such as \<^verbatim>\<open>variables\<close> is an association list in the order of
    \<^verbatim>\<open>Object.keys\<close> (insertion order for identifier keys). The keys of
    \<^verbatim>\<open>variables\<close> are identifier tokens (letters, digits, underscore), so that a key
    placed in a regular expression stands for itself.
  \<^item> A thrown \<^verbatim>\<open>Error\<close> is the left summand of the result.
  \<^item> The evaluator compiles the formula with \<^verbatim>\<open>new Function\<close>. The JavaScript engine
    is not part of the repository: \<open>evaluateFormula\<close> takes it as its first argument,
    and \<open>new_Function\<close> below models it on the arithmetic fragment of the language.
\<close>

subsection \<open>Numbers\<close>

datatype jsnum = Fin rat | NegZero | PosInf | NegInf | NaN

text \<open>The exponent of a positive rational: \<open>2 powi ilog2 a \<le> a < 2 powi (ilog2 a + 1)\<close>.\<close>

definition ilog2 :: "rat \<Rightarrow> int" where
  "ilog2 a = (let (p, q) = quotient_of a; d = bitlen p - bitlen q
              in if 2 powi d \<le> a then d else d - 1)"

definition round_half_even :: "rat \<Rightarrow> int" where
  "round_half_even x =
     (let n = \<lfloor>x\<rfloor>; r = x - of_int n
      in if r < 1 / 2 then n else if 1 / 2 < r then n + 1 else if even n then n else n + 1)"

text \<open>
  The double nearest to a real number (binary64: 53 bits of significand, least
  exponent \<open>-1022\<close>, subnormals, overflow to an infinity from \<open>2 powi 1024\<close> on).
\<close>

definition to_double :: "rat \<Rightarrow> jsnum" where
  "to_double x =
     (if x = 0 then Fin 0
      else
        let a = \<bar>x\<bar>;
            e = max (ilog2 a) (- 1022);
            ulp = 2 powi (e - 52);
            m = of_int (round_half_even (a / ulp)) * ulp
        in if 2 powi 1024 \<le> m then (if 0 < x then PosInf else NegInf)
           else if m = 0 then (if 0 < x then Fin 0 else NegZero)
           else Fin (if 0 < x then m else - m))"

definition is_infinite :: "jsnum \<Rightarrow> bool" where
  "is_infinite x \<longleftrightarrow> x = PosInf \<or> x = NegInf"

definition is_zero :: "jsnum \<Rightarrow> bool" where
  "is_zero x \<longleftrightarrow> x = Fin 0 \<or> x = NegZero"

definition sign_bit :: "jsnum \<Rightarrow> bool" where
  "sign_bit x = (case x of Fin q \<Rightarrow> q < 0 | NegZero \<Rightarrow> True | NegInf \<Rightarrow> True | _ \<Rightarrow> False)"

definition magnitude :: "jsnum \<Rightarrow> rat" where
  "magnitude x = (case x of Fin q \<Rightarrow> q | _ \<Rightarrow> 0)"

definition signed_zero :: "bool \<Rightarrow> jsnum" where
  "signed_zero negative = (if negative then NegZero else Fin 0)"

definition signed_infinity :: "bool \<Rightarrow> jsnum" where
  "signed_infinity negative = (if negative then NegInf else PosInf)"

text \<open>The operators \<^verbatim>\<open>-x\<close>, \<^verbatim>\<open>x + y\<close>, \<^verbatim>\<open>x - y\<close>, \<^verbatim>\<open>x * y\<close>, \<^verbatim>\<open>x / y\<close> on numbers.\<close>

definition Number_unaryMinus :: "jsnum \<Rightarrow> jsnum" where
  "Number_unaryMinus x =
     (case x of
        Fin q \<Rightarrow> if q = 0 then NegZero else Fin (- q)
      | NegZero \<Rightarrow> Fin 0
      | PosInf \<Rightarrow> NegInf
      | NegInf \<Rightarrow> PosInf
      | NaN \<Rightarrow> NaN)"

definition Number_add :: "jsnum \<Rightarrow> jsnum \<Rightarrow> jsnum" where
  "Number_add x y =
     (if x = NaN \<or> y = NaN then NaN
      else if is_infinite x then (if is_infinite y \<and> y \<noteq> x then NaN else x)
      else if is_infinite y then y
      else
        let s = magnitude x + magnitude y in
        if s = 0 then (if x = NegZero \<and> y = NegZero then NegZero else Fin 0)
        else to_double s)"

definition Number_subtract :: "jsnum \<Rightarrow> jsnum \<Rightarrow> jsnum" where
  "Number_subtract x y = Number_add x (Number_unaryMinus y)"

definition Number_multiply :: "jsnum \<Rightarrow> jsnum \<Rightarrow> jsnum" where
  "Number_multiply x y =
     (if x = NaN \<or> y = NaN then NaN
      else
        let negative = (sign_bit x \<noteq> sign_bit y) in
        if is_infinite x \<or> is_infinite y
        then (if is_zero x \<or> is_zero y then NaN else signed_infinity negative)
        else
          let p = magnitude x * magnitude y in
          if p = 0 then signed_zero negative else to_double p)"

definition Number_divide :: "jsnum \<Rightarrow> jsnum \<Rightarrow> jsnum" where
  "Number_divide x y =
     (if x = NaN \<or> y = NaN then NaN
      else
        let negative = (sign_bit x \<noteq> sign_bit y) in
        if is_infinite x then (if is_infinite y then NaN else signed_infinity negative)
        else if is_infinite y then signed_zero negative
        else if is_zero y then (if is_zero x then NaN else signed_infinity negative)
        else if is_zero x then signed_zero negative
        else to_double (magnitude x / magnitude y))"

text \<open>The global functions \<^verbatim>\<open>isNaN\<close> and \<^verbatim>\<open>isFinite\<close> on a number.\<close>

definition isNaN :: "jsnum \<Rightarrow> bool" where
  "isNaN n \<longleftrightarrow> n = NaN"

definition isFinite :: "jsnum \<Rightarrow> bool" where
  "isFinite n \<longleftrightarrow> n \<noteq> NaN \<and> n \<noteq> PosInf \<and> n \<noteq> NegInf"

subsection \<open>Values and objects\<close>

datatype mathfn = Math_min | Math_max | Math_round | Math_floor | Math_ceil

text \<open>
  The values: numbers, the five functions put into the context, and \<open>Other\<close> for any
  other value (\<^verbatim>\<open>undefined\<close>, a string, ...), of which only this is used: its
  \<^verbatim>\<open>typeof\<close> is not \<^verbatim>\<open>'number'\<close>.
\<close>

datatype jsval = Number jsnum | Builtin mathfn | Other

text \<open>An object: its own properties in the order of enumeration. The \<^verbatim>\<open>variables\<close>
  of a call is one.\<close>

type_synonym binding = "(string \<times> jsval) list"

subsection \<open>The validator\<close>

definition ALLOWED_OPERATORS :: "char list" where
  "ALLOWED_OPERATORS =
     [CHR ''+'', CHR ''-'', CHR ''*'', CHR ''/'', CHR ''('', CHR '')'', CHR ''.'']"

definition ALLOWED_FUNCTIONS :: "string list" where
  "ALLOWED_FUNCTIONS = [''min'', ''max'', ''round'', ''floor'', ''ceil'']"

text \<open>The class \<^verbatim>\<open>\s\<close> of a regular expression, on code units below 256:
  tab, line feed, vertical tab, form feed, carriage return, space, no-break space.\<close>

definition is_space :: "char \<Rightarrow> bool" where
  "is_space c \<longleftrightarrow>
     c \<in> set [CHR 0x09, CHR 0x0A, CHR 0x0B, CHR 0x0C, CHR 0x0D, CHR 0x20, CHR 0xA0]"

text \<open>The class \<^verbatim>\<open>\d\<close>.\<close>

definition is_digit :: "char \<Rightarrow> bool" where
  "is_digit c \<longleftrightarrow> c \<in> set ''0123456789''"

text \<open>
  \<^verbatim>\<open>new RegExp(`(${names.join('|')})`, 'g')\<close>: an alternation of literal names. At a
  position the alternatives are tried in the order written and the first one that
  matches there is taken, whatever its length.
\<close>

fun first_alternative :: "string list \<Rightarrow> string \<Rightarrow> string option" where
  "first_alternative [] s = None"
| "first_alternative (p # ps) s = (if prefix p s then Some p else first_alternative ps s)"

text \<open>
  \<^verbatim>\<open>s.replace(pattern, r)\<close> for a global pattern that is an alternation \<open>ps\<close> of
  literals: scan from the left, replace each match by \<open>r\<close> and go on after it; where
  nothing matches, keep the character. After an empty match the scan moves one
  character on, and an empty match at the end of the string is replaced too.
\<close>

function replace_all :: "string list \<Rightarrow> string \<Rightarrow> string \<Rightarrow> string" where
  "replace_all ps r [] = (case first_alternative ps [] of None \<Rightarrow> [] | Some p \<Rightarrow> r)"
| "replace_all ps r (c # cs) =
     (case first_alternative ps (c # cs) of
        None \<Rightarrow> c # replace_all ps r cs
      | Some p \<Rightarrow>
          if p = [] then r @ c # replace_all ps r cs
          else r @ replace_all ps r (drop (length p) (c # cs)))"
  by pat_completeness auto
termination
  by (relation "measure (\<lambda>(ps, r, s). length s)") auto

text \<open>The optional group \<^verbatim>\<open>(\.\d+)?\<close> after the integer digits: what is left of the
  string behind it.\<close>

fun after_fraction :: "string \<Rightarrow> string" where
  "after_fraction (c # d # cs) =
     (if c = CHR ''.'' \<and> is_digit d then dropWhile is_digit cs else c # d # cs)"
| "after_fraction cs = cs"

lemma length_after_fraction: "length (after_fraction s) \<le> length s"
proof (induction s rule: after_fraction.induct)
  case (1 c d cs)
  have "length (dropWhile is_digit cs) \<le> length cs"
    by (rule length_dropWhile_le)
  then show ?case by simp
qed simp_all

text \<open>\<^verbatim>\<open>s.replace(/\d+(\.\d+)?/g, 'N')\<close>: the digits are taken greedily.\<close>

function replace_numbers :: "string \<Rightarrow> string" where
  "replace_numbers [] = []"
| "replace_numbers (c # cs) =
     (if is_digit c
      then CHR ''N'' # replace_numbers (after_fraction (dropWhile is_digit cs))
      else c # replace_numbers cs)"
  by pat_completeness auto
termination
proof (relation "measure length")
  fix c :: char and cs :: string
  have "length (after_fraction (dropWhile is_digit cs)) \<le> length (dropWhile is_digit cs)"
    by (rule length_after_fraction)
  also have "\<dots> \<le> length cs"
    by (rule length_dropWhile_le)
  finally show "(after_fraction (dropWhile is_digit cs), c # cs) \<in> measure length"
    by simp
qed simp_all

text \<open>
  \<^verbatim>\<open>validateFormula(formula, variables)\<close>. The formula is a string (the test
  \<^verbatim>\<open>typeof formula !== 'string'\<close> is the type); the empty string is falsy. Only the
  keys of \<^verbatim>\<open>variables\<close> are read. With no variable the pattern is \<^verbatim>\<open>/^$/\<close>, which
  matches no string that has a character.
\<close>

definition validateFormula :: "string \<Rightarrow> binding \<Rightarrow> bool" where
  "validateFormula formula variables =
     (if formula = [] then False
      else
        let cleanFormula = filter (\<lambda>c. \<not> is_space c) formula in
        if length cleanFormula = 0 then False
        else
          let variableNames = map fst variables;
              testFormula1 =
                (if length variableNames > 0
                 then replace_all variableNames ''V'' cleanFormula
                 else cleanFormula);
              testFormula2 =
                (if length ALLOWED_FUNCTIONS > 0
                 then replace_all (map (\<lambda>f. f @ ''('') ALLOWED_FUNCTIONS) ''F('' testFormula1
                 else testFormula1);
              testFormula = replace_numbers testFormula2
          in list_all
               (\<lambda>char. \<not> (char \<noteq> CHR ''V'' \<and> char \<noteq> CHR ''N'' \<and> char \<noteq> CHR ''F''
                          \<and> char \<notin> set ALLOWED_OPERATORS))
               testFormula)"

subsection \<open>The functions of \<^verbatim>\<open>Math\<close> and the engine's outcomes\<close>

text \<open>
  What running a function body gives: a value, or a thrown exception (\<open>OtherError\<close>
  is any exception that is none of the three named). \<open>Unmodelled\<close> is not an
  exception of the language: it marks a body outside the fragment that is modelled
  below (line terminators, comments, regular expression literals, \<^verbatim>\<open>++\<close>,
  \<^verbatim>\<open>--\<close>, \<^verbatim>\<open>**\<close>, property access, exponents and other numeric forms, strings,
  names that are not parameters); nothing is said about the code there.
\<close>

datatype exn = SyntaxError | ReferenceError | TypeError | OtherError | Unmodelled

text \<open>\<^verbatim>\<open>ToNumber\<close>: a function object converts through its source text, which is
  not a numeral.\<close>

fun ToNumber :: "jsval \<Rightarrow> exn + jsnum" where
  "ToNumber (Number n) = Inr n"
| "ToNumber (Builtin f) = Inr NaN"
| "ToNumber Other = Inl Unmodelled"

fun ToNumbers :: "jsval list \<Rightarrow> exn + jsnum list" where
  "ToNumbers [] = Inr []"
| "ToNumbers (v # vs) =
     (case ToNumber v of
        Inl e \<Rightarrow> Inl e
      | Inr n \<Rightarrow> (case ToNumbers vs of Inl e \<Rightarrow> Inl e | Inr ns \<Rightarrow> Inr (n # ns)))"

text \<open>The order \<^verbatim>\<open>Math.min\<close> and \<^verbatim>\<open>Math.max\<close> compare with: the negative zero
  is below the positive one; NaN is handled before.\<close>

fun number_less :: "jsnum \<Rightarrow> jsnum \<Rightarrow> bool" where
  "number_less NaN b = False"
| "number_less a NaN = False"
| "number_less NegInf b = (b \<noteq> NegInf)"
| "number_less a NegInf = False"
| "number_less PosInf b = False"
| "number_less a PosInf = True"
| "number_less (Fin p) (Fin q) = (p < q)"
| "number_less NegZero (Fin q) = (0 \<le> q)"
| "number_less (Fin p) NegZero = (p < 0)"
| "number_less NegZero NegZero = False"

definition min_of :: "jsnum list \<Rightarrow> jsnum" where
  "min_of ns =
     (if NaN \<in> set ns then NaN
      else foldl (\<lambda>lowest n. if number_less n lowest then n else lowest) PosInf ns)"

definition max_of :: "jsnum list \<Rightarrow> jsnum" where
  "max_of ns =
     (if NaN \<in> set ns then NaN
      else foldl (\<lambda>highest n. if number_less highest n then n else highest) NegInf ns)"

text \<open>\<^verbatim>\<open>Math.round\<close>: the nearest integer, a tie going towards \<open>+\<infinity>\<close>; the sign of a
  zero result is that of the argument.\<close>

definition round_number :: "jsnum \<Rightarrow> jsnum" where
  "round_number x =
     (case x of
        Fin q \<Rightarrow>
          let r = \<lfloor>q + 1 / 2\<rfloor> in
          if r = 0 then (if q < 0 then NegZero else Fin 0) else Fin (of_int r)
      | _ \<Rightarrow> x)"

definition floor_number :: "jsnum \<Rightarrow> jsnum" where
  "floor_number x = (case x of Fin q \<Rightarrow> Fin (of_int \<lfloor>q\<rfloor>) | _ \<Rightarrow> x)"

definition ceil_number :: "jsnum \<Rightarrow> jsnum" where
  "ceil_number x =
     (case x of
        Fin q \<Rightarrow> let r = \<lceil>q\<rceil> in if r = 0 \<and> q < 0 then NegZero else Fin (of_int r)
      | _ \<Rightarrow> x)"

text \<open>A missing first argument is \<^verbatim>\<open>undefined\<close>, which converts to NaN.\<close>

definition first_argument :: "jsnum list \<Rightarrow> jsnum" where
  "first_argument args = (case args of [] \<Rightarrow> NaN | a # _ \<Rightarrow> a)"

text \<open>A call of one of the five functions on arguments converted to numbers, however
  many there are: no arity is declared, \<^verbatim>\<open>Math.min\<close> and \<^verbatim>\<open>Math.max\<close> take what
  they get, the others read the first argument.\<close>

definition call_builtin :: "mathfn \<Rightarrow> jsnum list \<Rightarrow> jsnum" where
  "call_builtin f args =
     (case f of
        Math_min \<Rightarrow> min_of args
      | Math_max \<Rightarrow> max_of args
      | Math_round \<Rightarrow> round_number (first_argument args)
      | Math_floor \<Rightarrow> floor_number (first_argument args)
      | Math_ceil \<Rightarrow> ceil_number (first_argument args))"

subsection \<open>The engine on the arithmetic fragment: tokens\<close>

datatype token =
    TNum jsnum | TId string | TPlus | TMinus | TStar | TSlash | TLParen | TRParen
  | TReturn | TSemicolon

text \<open>White space of the source text other than line terminators.\<close>

definition is_blank :: "char \<Rightarrow> bool" where
  "is_blank c \<longleftrightarrow> c \<in> set [CHR 0x09, CHR 0x0B, CHR 0x0C, CHR 0x20, CHR 0xA0]"

definition is_id_start :: "char \<Rightarrow> bool" where
  "is_id_start c \<longleftrightarrow>
     c \<in> set ''abcdefghijklmnopqrstuvwxyzABCDEFGHIJKLMNOPQRSTUVWXYZ_''"

definition is_id_part :: "char \<Rightarrow> bool" where
  "is_id_part c \<longleftrightarrow> is_id_start c \<or> is_digit c"

definition digits_value :: "string \<Rightarrow> nat" where
  "digits_value ds = foldl (\<lambda>n d. 10 * n + (of_char d - 48)) 0 ds"

text \<open>A decimal literal starts with a digit, or with a point and a digit.\<close>

definition starts_number :: "string \<Rightarrow> bool" where
  "starts_number s =
     (case s of
        [] \<Rightarrow> False
      | c # cs \<Rightarrow>
          is_digit c \<or> (c = CHR ''.'' \<and> (case cs of [] \<Rightarrow> False | d # _ \<Rightarrow> is_digit d)))"

text \<open>
  The decimal literal at the head of \<open>s\<close> and the text behind it: integer digits, then
  an optional point with optional digits. Its value is the double nearest to the
  decimal numeral. No value is given (the literal is outside the fragment) for a
  leading zero before a digit, and for a literal followed at once by a letter or
  underscore.
\<close>

definition numeric_literal :: "string \<Rightarrow> jsnum option \<times> string" where
  "numeric_literal s =
     (let ip = takeWhile is_digit s;
          r1 = dropWhile is_digit s;
          fp = (case r1 of [] \<Rightarrow> []
                | c # r \<Rightarrow> if c = CHR ''.'' then takeWhile is_digit r else []);
          r2 = (case r1 of [] \<Rightarrow> []
                | c # r \<Rightarrow> if c = CHR ''.'' then dropWhile is_digit r else r1)
      in if (1 < length ip \<and> hd ip = CHR ''0'')
            \<or> (case r2 of [] \<Rightarrow> False | c # _ \<Rightarrow> is_id_start c)
         then (None, r2)
         else (Some (to_double (of_nat (digits_value ip)
                                 + of_nat (digits_value fp) / 10 ^ length fp)), r2))"

lemma length_numeric_literal:
  assumes "starts_number s"
  shows "length (snd (numeric_literal s)) < length s"
proof (cases s)
  case Nil
  with assms show ?thesis by (simp add: starts_number_def)
next
  case (Cons c cs)
  have le: "\<And>xs. length (dropWhile is_digit xs) \<le> length xs"
    by (rule length_dropWhile_le)
  show ?thesis
  proof (cases "is_digit c")
    case True
    then have r1: "dropWhile is_digit s = dropWhile is_digit cs" by (simp add: Cons)
    have "length (dropWhile is_digit cs) \<le> length cs" by (rule le)
    moreover have "length (dropWhile is_digit r) \<le> length cs"
      if h: "dropWhile is_digit cs = c' # r" for r c'
    proof -
      have "length (dropWhile is_digit r) \<le> length r" by (rule le)
      also have "\<dots> \<le> length (dropWhile is_digit cs)" by (simp add: h)
      also have "\<dots> \<le> length cs" by (rule le)
      finally show ?thesis .
    qed
    ultimately show ?thesis
      by (auto simp: numeric_literal_def Let_def r1 split: list.splits) (simp_all add: Cons)
  next
    case False
    have "length (dropWhile is_digit cs) \<le> length cs" by (rule le)
    then show ?thesis
      using False assms
      by (auto simp: numeric_literal_def starts_number_def Let_def Cons split: list.splits)
  qed
qed

definition cons_token :: "token \<Rightarrow> exn + token list \<Rightarrow> exn + token list" where
  "cons_token t r = (case r of Inl e \<Rightarrow> Inl e | Inr ts \<Rightarrow> Inr (t # ts))"

text \<open>The tokens of a function body. Two adjacent characters that would form one of
  the punctuators \<^verbatim>\<open>++\<close>, \<^verbatim>\<open>--\<close>, \<^verbatim>\<open>**\<close> or open a comment leave the fragment.\<close>

function lex :: "string \<Rightarrow> exn + token list" where
  "lex [] = Inr []"
| "lex (c # cs) =
     (if is_blank c then lex cs
      else if starts_number (c # cs) then
        (case fst (numeric_literal (c # cs)) of
           None \<Rightarrow> Inl Unmodelled
         | Some n \<Rightarrow> cons_token (TNum n) (lex (snd (numeric_literal (c # cs)))))
      else if is_id_start c then
        (let name = c # takeWhile is_id_part cs
         in cons_token (if name = ''return'' then TReturn else TId name)
              (lex (dropWhile is_id_part cs)))
      else if c = CHR ''+'' then
        (case cs of d # _ \<Rightarrow> if d = CHR ''+'' then Inl Unmodelled else cons_token TPlus (lex cs)
                  | [] \<Rightarrow> cons_token TPlus (lex cs))
      else if c = CHR ''-'' then
        (case cs of d # _ \<Rightarrow> if d = CHR ''-'' then Inl Unmodelled else cons_token TMinus (lex cs)
                  | [] \<Rightarrow> cons_token TMinus (lex cs))
      else if c = CHR ''*'' then
        (case cs of d # _ \<Rightarrow> if d = CHR ''*'' then Inl Unmodelled else cons_token TStar (lex cs)
                  | [] \<Rightarrow> cons_token TStar (lex cs))
      else if c = CHR ''/'' then
        (case cs of d # _ \<Rightarrow> if d = CHR ''/'' \<or> d = CHR ''*'' then Inl Unmodelled
                                else cons_token TSlash (lex cs)
                  | [] \<Rightarrow> cons_token TSlash (lex cs))
      else if c = CHR ''('' then cons_token TLParen (lex cs)
      else if c = CHR '')'' then cons_token TRParen (lex cs)
      else if c = CHR '';'' then cons_token TSemicolon (lex cs)
      else Inl Unmodelled)"
  by pat_completeness auto
termination
proof (relation "measure length", goal_cases)
  case 1
  show ?case by simp
next
  case (2 c cs)
  then show ?case by simp
next
  case (3 c cs n)
  then show ?case using length_numeric_literal [of "c # cs"] by simp
next
  case (4 c cs name)
  have "length (dropWhile is_id_part cs) \<le> length cs" by (rule length_dropWhile_le)
  then show ?case by simp
qed simp_all

subsection \<open>The engine on the arithmetic fragment: expressions\<close>

datatype binop = Add | Sub | Mul | Div

datatype expr =
    Literal jsnum
  | Identifier string
  | UnaryPlus expr
  | UnaryMinus expr
  | Binary binop expr expr
  | Call expr "expr list"

text \<open>
  The productions of the grammar that the fragment keeps. \<open>AdditiveRest lhs\<close> and
  \<open>MultiplicativeRest lhs\<close> continue a left-associative chain whose left operand is
  parsed; \<open>ArgumentsRest callee\<close> reads the argument lists that follow a primary
  expression.
\<close>

datatype production =
    AdditiveExpression
  | AdditiveRest expr
  | MultiplicativeExpression
  | MultiplicativeRest expr
  | UnaryExpression
  | CallExpression
  | ArgumentsRest expr

fun rank :: "production \<Rightarrow> nat" where
  "rank AdditiveExpression = 3"
| "rank MultiplicativeExpression = 2"
| "rank UnaryExpression = 1"
| "rank _ = 0"

text \<open>
  Recursive descent: the expression read and the tokens left. The tests on the length
  of the rest only serve the termination proof: a parse never returns more tokens than
  it was given (\<open>parse_rest\<close> below). A \<^verbatim>\<open>/\<close> where an operand is due would open a
  regular expression literal, outside the fragment; an argument list has no comma,
  which is not a token of the fragment.
\<close>

function parse :: "production \<Rightarrow> token list \<Rightarrow> exn + expr \<times> token list" where
  "parse AdditiveExpression ts =
     (case parse MultiplicativeExpression ts of
        Inl e \<Rightarrow> Inl e
      | Inr (lhs, rest) \<Rightarrow>
          if length rest \<le> length ts then parse (AdditiveRest lhs) rest else Inl Unmodelled)"
| "parse (AdditiveRest lhs) ts =
     (case ts of
        TPlus # ts' \<Rightarrow>
          (case parse MultiplicativeExpression ts' of
             Inl e \<Rightarrow> Inl e
           | Inr (rhs, rest) \<Rightarrow>
               if length rest \<le> length ts' then parse (AdditiveRest (Binary Add lhs rhs)) rest
               else Inl Unmodelled)
      | TMinus # ts' \<Rightarrow>
          (case parse MultiplicativeExpression ts' of
             Inl e \<Rightarrow> Inl e
           | Inr (rhs, rest) \<Rightarrow>
               if length rest \<le> length ts' then parse (AdditiveRest (Binary Sub lhs rhs)) rest
               else Inl Unmodelled)
      | _ \<Rightarrow> Inr (lhs, ts))"
| "parse MultiplicativeExpression ts =
     (case parse UnaryExpression ts of
        Inl e \<Rightarrow> Inl e
      | Inr (lhs, rest) \<Rightarrow>
          if length rest \<le> length ts then parse (MultiplicativeRest lhs) rest
          else Inl Unmodelled)"
| "parse (MultiplicativeRest lhs) ts =
     (case ts of
        TStar # ts' \<Rightarrow>
          (case parse UnaryExpression ts' of
             Inl e \<Rightarrow> Inl e
           | Inr (rhs, rest) \<Rightarrow>
               if length rest \<le> length ts'
               then parse (MultiplicativeRest (Binary Mul lhs rhs)) rest
               else Inl Unmodelled)
      | TSlash # ts' \<Rightarrow>
          (case parse UnaryExpression ts' of
             Inl e \<Rightarrow> Inl e
           | Inr (rhs, rest) \<Rightarrow>
               if length rest \<le> length ts'
               then parse (MultiplicativeRest (Binary Div lhs rhs)) rest
               else Inl Unmodelled)
      | _ \<Rightarrow> Inr (lhs, ts))"
| "parse UnaryExpression ts =
     (case ts of
        TPlus # ts' \<Rightarrow>
          (case parse UnaryExpression ts' of
             Inl e \<Rightarrow> Inl e
           | Inr (operand, rest) \<Rightarrow> Inr (UnaryPlus operand, rest))
      | TMinus # ts' \<Rightarrow>
          (case parse UnaryExpression ts' of
             Inl e \<Rightarrow> Inl e
           | Inr (operand, rest) \<Rightarrow> Inr (UnaryMinus operand, rest))
      | _ \<Rightarrow> parse CallExpression ts)"
| "parse CallExpression ts =
     (case ts of
        TNum n # ts' \<Rightarrow> parse (ArgumentsRest (Literal n)) ts'
      | TId x # ts' \<Rightarrow> parse (ArgumentsRest (Identifier x)) ts'
      | TLParen # ts' \<Rightarrow>
          (case parse AdditiveExpression ts' of
             Inl e \<Rightarrow> Inl e
           | Inr (inner, rest) \<Rightarrow>
               (case rest of
                  TRParen # rest' \<Rightarrow>
                    if length rest' \<le> length ts' then parse (ArgumentsRest inner) rest'
                    else Inl Unmodelled
                | _ \<Rightarrow> Inl SyntaxError))
      | TSlash # ts' \<Rightarrow> Inl Unmodelled
      | _ \<Rightarrow> Inl SyntaxError)"
| "parse (ArgumentsRest callee) ts =
     (case ts of
        TLParen # ts' \<Rightarrow>
          (case ts' of
             TRParen # ts'' \<Rightarrow> parse (ArgumentsRest (Call callee [])) ts''
           | _ \<Rightarrow>
              (case parse AdditiveExpression ts' of
                 Inl e \<Rightarrow> Inl e
               | Inr (argument, rest) \<Rightarrow>
                   (case rest of
                      TRParen # rest' \<Rightarrow>
                        if length rest' \<le> length ts'
                        then parse (ArgumentsRest (Call callee [argument])) rest'
                        else Inl Unmodelled
                    | _ \<Rightarrow> Inl SyntaxError)))
      | _ \<Rightarrow> Inr (callee, ts))"
  by pat_completeness auto
termination
  by (relation "measure (\<lambda>(nt, ts). 4 * length ts + rank nt)") auto

text \<open>The equations of \<open>parse\<close> unfold without end on a symbolic token list; they are
  used where asked for.\<close>

declare parse.simps [simp del]

text \<open>
  The body \<^verbatim>\<open>return <expression>;\<close> and nothing else. A \<^verbatim>\<open>return\<close> with no
  expression and text after the semicolon are outside the fragment.
\<close>

definition parse_body :: "token list \<Rightarrow> exn + expr" where
  "parse_body ts =
     (case ts of
        TReturn # ts' \<Rightarrow>
          (case ts' of
             TSemicolon # _ \<Rightarrow> Inl Unmodelled
           | _ \<Rightarrow>
              (case parse AdditiveExpression ts' of
                 Inl e \<Rightarrow> Inl e
               | Inr (e, rest) \<Rightarrow>
                   if rest = [TSemicolon] then Inr e
                   else if rest = [] \<or> hd rest = TSemicolon then Inl Unmodelled
                   else Inl SyntaxError))
      | _ \<Rightarrow> Inl Unmodelled)"

text \<open>
  The binary operators. \<^verbatim>\<open>+\<close> adds two numbers; on a function object it
  concatenates strings, which the fragment does not have. The other operators convert
  their operands to numbers.
\<close>

definition arithmetic :: "(jsnum \<Rightarrow> jsnum \<Rightarrow> jsnum) \<Rightarrow> jsval \<Rightarrow> jsval \<Rightarrow> exn + jsval" where
  "arithmetic f a b =
     (case ToNumber a of
        Inl e \<Rightarrow> Inl e
      | Inr x \<Rightarrow> (case ToNumber b of Inl e \<Rightarrow> Inl e | Inr y \<Rightarrow> Inr (Number (f x y))))"

definition apply_binary :: "binop \<Rightarrow> jsval \<Rightarrow> jsval \<Rightarrow> exn + jsval" where
  "apply_binary op a b =
     (case op of
        Add \<Rightarrow>
          (case a of
             Number x \<Rightarrow> (case b of Number y \<Rightarrow> Inr (Number (Number_add x y))
                                    | _ \<Rightarrow> Inl Unmodelled)
           | _ \<Rightarrow> Inl Unmodelled)
      | Sub \<Rightarrow> arithmetic Number_subtract a b
      | Mul \<Rightarrow> arithmetic Number_multiply a b
      | Div \<Rightarrow> arithmetic Number_divide a b)"

text \<open>
  Evaluation, operands from left to right. A call evaluates the callee, then the
  arguments, and only then finds that a number cannot be called.
\<close>

fun evaluate :: "(string \<times> jsval) list \<Rightarrow> expr \<Rightarrow> exn + jsval"
  and evaluate_arguments :: "(string \<times> jsval) list \<Rightarrow> expr list \<Rightarrow> exn + jsval list" where
  "evaluate env (Literal n) = Inr (Number n)"
| "evaluate env (Identifier x) =
     (case map_of env x of None \<Rightarrow> Inl Unmodelled | Some v \<Rightarrow> Inr v)"
| "evaluate env (UnaryPlus e) =
     (case evaluate env e of
        Inl x \<Rightarrow> Inl x
      | Inr v \<Rightarrow> (case ToNumber v of Inl x \<Rightarrow> Inl x | Inr n \<Rightarrow> Inr (Number n)))"
| "evaluate env (UnaryMinus e) =
     (case evaluate env e of
        Inl x \<Rightarrow> Inl x
      | Inr v \<Rightarrow>
          (case ToNumber v of
             Inl x \<Rightarrow> Inl x
           | Inr n \<Rightarrow> Inr (Number (Number_unaryMinus n))))"
| "evaluate env (Binary op l r) =
     (case evaluate env l of
        Inl x \<Rightarrow> Inl x
      | Inr a \<Rightarrow> (case evaluate env r of Inl x \<Rightarrow> Inl x | Inr b \<Rightarrow> apply_binary op a b))"
| "evaluate env (Call f args) =
     (case evaluate env f of
        Inl x \<Rightarrow> Inl x
      | Inr callee \<Rightarrow>
          (case evaluate_arguments env args of
             Inl x \<Rightarrow> Inl x
           | Inr vs \<Rightarrow>
               (case callee of
                  Builtin g \<Rightarrow>
                    (case ToNumbers vs of
                       Inl x \<Rightarrow> Inl x
                     | Inr ns \<Rightarrow> Inr (Number (call_builtin g ns)))
                | Number n \<Rightarrow> Inl TypeError
                | Other \<Rightarrow> Inl Unmodelled)))"
| "evaluate_arguments env [] = Inr []"
| "evaluate_arguments env (a # as) =
     (case evaluate env a of
        Inl x \<Rightarrow> Inl x
      | Inr v \<Rightarrow>
          (case evaluate_arguments env as of Inl x \<Rightarrow> Inl x | Inr vs \<Rightarrow> Inr (v # vs)))"

text \<open>Names that are reserved, or have a meaning of their own, in a function body.\<close>

definition reserved_words :: "string list" where
  "reserved_words =
     [''arguments'', ''async'', ''await'', ''break'', ''case'', ''catch'', ''class'', ''const'',
      ''continue'', ''debugger'', ''default'', ''delete'', ''do'', ''else'', ''enum'', ''eval'',
      ''export'', ''extends'', ''false'', ''finally'', ''for'', ''function'', ''get'', ''if'',
      ''implements'', ''import'', ''in'', ''instanceof'', ''interface'', ''let'', ''new'',
      ''null'', ''of'', ''package'', ''private'', ''protected'', ''public'', ''return'',
      ''set'', ''static'', ''super'', ''switch'', ''this'', ''throw'', ''true'', ''try'',
      ''typeof'', ''var'', ''void'', ''while'', ''with'', ''yield'']"

definition plain_identifier :: "string \<Rightarrow> bool" where
  "plain_identifier name \<longleftrightarrow>
     (case name of [] \<Rightarrow> False | c # cs \<Rightarrow> is_id_start c \<and> list_all is_id_part cs)
     \<and> name \<notin> set reserved_words"

definition declared :: "string list \<Rightarrow> token \<Rightarrow> bool" where
  "declared params t = (case t of TId x \<Rightarrow> x \<in> set params | _ \<Rightarrow> True)"

text \<open>
  The engine as \<open>evaluateFormula\<close> uses it: \<^verbatim>\<open>new Function(...params, body)\<close> called
  with \<open>args\<close>. Either step may throw.
\<close>

type_synonym engine = "string list \<Rightarrow> string \<Rightarrow> jsval list \<Rightarrow> exn + jsval"

text \<open>
  The model of the engine. The parameters are distinct plain identifiers, one per
  argument, and every name in the body is a parameter (a name that is not would be
  looked up in the global object): otherwise the call is outside the fragment. A body
  that does not parse throws \<^verbatim>\<open>SyntaxError\<close> before anything is evaluated.
\<close>

definition new_Function :: engine where
  "new_Function params body args =
     (if \<not> (list_all plain_identifier params \<and> distinct params \<and> length args = length params)
      then Inl Unmodelled
      else
        case lex body of
          Inl e \<Rightarrow> Inl e
        | Inr tokens \<Rightarrow>
            if \<not> list_all (declared params) tokens then Inl Unmodelled
            else
              case parse_body tokens of
                Inl e \<Rightarrow> Inl e
              | Inr e \<Rightarrow> evaluate (zip params args) e)"

subsection \<open>The evaluator\<close>

text \<open>
  The two errors \<^verbatim>\<open>evaluateFormula\<close> throws, by their message:
  \<^verbatim>\<open>Invalid formula: <formula>\<close> and
  \<^verbatim>\<open>Error evaluating formula "<formula>": <message>\<close>, where the inner message is that
  of an exception of the engine or
  \<^verbatim>\<open>Formula evaluation did not produce a valid number: <formula>\<close>.
\<close>

datatype cause = Thrown exn | NotValidNumber string

datatype error = InvalidFormula string | ErrorEvaluatingFormula string cause

text \<open>
  \<^verbatim>\<open>const context = { ...variables }\<close> followed by the five assignments
  \<^verbatim>\<open>context.min = Math.min\<close> ... \<^verbatim>\<open>context.ceil = Math.ceil\<close>: an assignment to a key
  that exists replaces its value in place, a new key goes to the end.
\<close>

definition evaluation_context :: "binding \<Rightarrow> (string \<times> jsval) list" where
  "evaluation_context variables =
     AList.update ''ceil'' (Builtin Math_ceil)
       (AList.update ''floor'' (Builtin Math_floor)
         (AList.update ''round'' (Builtin Math_round)
           (AList.update ''max'' (Builtin Math_max)
             (AList.update ''min'' (Builtin Math_min) variables))))"

text \<open>
  \<^verbatim>\<open>evaluateFormula(formula, variables)\<close>, with the engine \<open>Function\<close> as first
  argument. Everything after the validation is inside the \<^verbatim>\<open>try\<close>; the error for a
  result that is not a finite number is thrown there and wrapped like the others.
\<close>

definition evaluateFormula :: "engine \<Rightarrow> string \<Rightarrow> binding \<Rightarrow> error + jsnum" where
  "evaluateFormula Function formula variables =
     (if \<not> validateFormula formula variables then Inl (InvalidFormula formula)
      else
        let context = evaluation_context variables;
            paramNames = map fst context;
            paramValues = map snd context
        in case Function paramNames (''return '' @ formula @ '';'') paramValues of
             Inl e \<Rightarrow> Inl (ErrorEvaluatingFormula formula (Thrown e))
           | Inr result \<Rightarrow>
               (case result of
                  Number n \<Rightarrow>
                    if isNaN n \<or> \<not> isFinite n
                    then Inl (ErrorEvaluatingFormula formula (NotValidNumber formula))
                    else Inr n
                | _ \<Rightarrow> Inl (ErrorEvaluatingFormula formula (NotValidNumber formula))))"

subsection \<open>Dimensions of a part\<close>

text \<open>A formula of a part may be missing (\<^verbatim>\<open>undefined\<close> or \<^verbatim>\<open>null\<close>): \<open>None\<close>.\<close>

record part =
  formula_width :: "string option"
  formula_height :: "string option"
  formula_depth :: "string option"

record dimensions =
  width :: jsnum
  height :: jsnum
  depth :: jsnum

text \<open>
  \<^verbatim>\<open>evaluatePartDimensions(part, variables)\<close>. The three fields start at the number
  \<open>0\<close>; a formula that is truthy (present and not the empty string) is evaluated and
  its value stored; an exception of \<^verbatim>\<open>evaluateFormula\<close> ends the call.
\<close>

definition evaluatePartDimensions :: "engine \<Rightarrow> part \<Rightarrow> binding \<Rightarrow> error + dimensions" where
  "evaluatePartDimensions Function part variables =
     (let dimensions = \<lparr>width = Fin 0, height = Fin 0, depth = Fin 0\<rparr> in
      case (case formula_width part of
              None \<Rightarrow> Inr dimensions
            | Some f \<Rightarrow>
                if f = [] then Inr dimensions
                else (case evaluateFormula Function f variables of
                        Inl e \<Rightarrow> Inl e
                      | Inr w \<Rightarrow> Inr (dimensions\<lparr>width := w\<rparr>))) of
        Inl e \<Rightarrow> Inl e
      | Inr dimensions \<Rightarrow>
          (case (case formula_height part of
                   None \<Rightarrow> Inr dimensions
                 | Some f \<Rightarrow>
                     if f = [] then Inr dimensions
                     else (case evaluateFormula Function f variables of
                             Inl e \<Rightarrow> Inl e
                           | Inr h \<Rightarrow> Inr (dimensions\<lparr>height := h\<rparr>))) of
             Inl e \<Rightarrow> Inl e
           | Inr dimensions \<Rightarrow>
               (case formula_depth part of
                  None \<Rightarrow> Inr dimensions
                | Some f \<Rightarrow>
                    if f = [] then Inr dimensions
                    else (case evaluateFormula Function f variables of
                            Inl e \<Rightarrow> Inl e
                          | Inr d \<Rightarrow> Inr (dimensions\<lparr>depth := d\<rparr>)))))"

text \<open>
  What the composition does for one axis, in terms of \<open>evaluateFormula\<close>: with no
  formula (or the empty string) the field keeps the number \<open>0\<close> it started with; with
  a formula the field is the value \<open>evaluateFormula\<close> returns.
\<close>

definition axis_value :: "engine \<Rightarrow> string option \<Rightarrow> binding \<Rightarrow> jsnum \<Rightarrow> bool" where
  "axis_value Function formula variables x =
     (case formula of
        None \<Rightarrow> x = Fin 0
      | Some f \<Rightarrow> if f = [] then x = Fin 0 else evaluateFormula Function f variables = Inr x)"

subsection \<open>Calls on a store\<close>

text \<open>
  The caller passes \<^verbatim>\<open>variables\<close> by reference. To state what a call leaves behind,
  the objects are put in a store, a list addressed by position, and a call returns its
  result together with the store it leaves. A reference is a position below the length
  of the store (a reference to nothing does not exist in the language).
  \<^verbatim>\<open>validateFormula\<close> assigns to no property of any object.
  \<^verbatim>\<open>evaluateFormula\<close> allocates \<^verbatim>\<open>context\<close> as a copy of \<^verbatim>\<open>variables\<close> at
  the next free position and makes its five assignments to that new object. The
  engine receives names and values, never a reference into the store.
\<close>

type_synonym store = "binding list"

definition validateFormula_call :: "string \<Rightarrow> nat \<Rightarrow> store \<Rightarrow> bool \<times> store" where
  "validateFormula_call formula variables store =
     (validateFormula formula (store ! variables), store)"

definition evaluateFormula_call ::
  "engine \<Rightarrow> string \<Rightarrow> nat \<Rightarrow> store \<Rightarrow> (error + jsnum) \<times> store" where
  "evaluateFormula_call Function formula variables store =
     (if \<not> fst (validateFormula_call formula variables store)
      then (Inl (InvalidFormula formula), store)
      else
        let context = length store;
            store1 = store @ [store ! variables];
            store2 = store1
              [context := AList.update ''min'' (Builtin Math_min) (store1 ! context)];
            store3 = store2
              [context := AList.update ''max'' (Builtin Math_max) (store2 ! context)];
            store4 = store3
              [context := AList.update ''round'' (Builtin Math_round) (store3 ! context)];
            store5 = store4
              [context := AList.update ''floor'' (Builtin Math_floor) (store4 ! context)];
            store6 = store5
              [context := AList.update ''ceil'' (Builtin Math_ceil) (store5 ! context)];
            paramNames = map fst (store6 ! context);
            paramValues = map snd (store6 ! context)
        in (case Function paramNames (''return '' @ formula @ '';'') paramValues of
              Inl e \<Rightarrow> Inl (ErrorEvaluatingFormula formula (Thrown e))
            | Inr result \<Rightarrow>
                (case result of
                   Number n \<Rightarrow>
                     if isNaN n \<or> \<not> isFinite n
                     then Inl (ErrorEvaluatingFormula formula (NotValidNumber formula))
                     else Inr n
                 | _ \<Rightarrow> Inl (ErrorEvaluatingFormula formula (NotValidNumber formula))),
            store6))"

subsection \<open>Standard notation\<close>

text \<open>
  What follows is not taken from the source: it is the usual reading of arithmetic
  notation, against which the engine is compared. There are two levels of binary
  operators, \<^verbatim>\<open>*\<close> and \<^verbatim>\<open>/\<close> above \<^verbatim>\<open>+\<close> and \<^verbatim>\<open>-\<close>.
\<close>

definition precedence :: "binop \<Rightarrow> nat" where
  "precedence op = (case op of Add \<Rightarrow> 1 | Sub \<Rightarrow> 1 | Mul \<Rightarrow> 2 | Div \<Rightarrow> 2)"

definition symbol :: "binop \<Rightarrow> char" where
  "symbol op =
     (case op of Add \<Rightarrow> CHR ''+'' | Sub \<Rightarrow> CHR ''-'' | Mul \<Rightarrow> CHR ''*'' | Div \<Rightarrow> CHR ''/'')"

definition operator :: "binop \<Rightarrow> token" where
  "operator op = (case op of Add \<Rightarrow> TPlus | Sub \<Rightarrow> TMinus | Mul \<Rightarrow> TStar | Div \<Rightarrow> TSlash)"

text \<open>The operation an operator stands for, on two numbers.\<close>

definition operation :: "binop \<Rightarrow> jsnum \<Rightarrow> jsnum \<Rightarrow> jsnum" where
  "operation op x y =
     (case op of
        Add \<Rightarrow> Number_add x y
      | Sub \<Rightarrow> Number_subtract x y
      | Mul \<Rightarrow> Number_multiply x y
      | Div \<Rightarrow> Number_divide x y)"

text \<open>
  An expression tree written down with the parentheses that standard precedence and
  left associativity make necessary, and no others. \<open>tokens_of p e\<close> writes \<open>e\<close> where
  an operand of level \<open>p\<close> is expected: \<open>1\<close> for a term of a sum, \<open>2\<close> for a factor of a
  product, \<open>3\<close> for the operand of a sign, \<open>4\<close> for what is called. The left operand of
  an operator stands at the operator's own level, the right operand one level above:
  \<open>a - b - c\<close> is \<open>(a - b) - c\<close>, and \<open>a - (b - c)\<close> needs its parentheses.
\<close>

definition parenthesise :: "bool \<Rightarrow> token list \<Rightarrow> token list" where
  "parenthesise b ts = (if b then TLParen # ts @ [TRParen] else ts)"

fun tokens_of :: "nat \<Rightarrow> expr \<Rightarrow> token list" where
  "tokens_of p (Literal n) = [TNum n]"
| "tokens_of p (Identifier x) = [TId x]"
| "tokens_of p (UnaryPlus e) = parenthesise (3 < p) (TPlus # tokens_of 3 e)"
| "tokens_of p (UnaryMinus e) = parenthesise (3 < p) (TMinus # tokens_of 3 e)"
| "tokens_of p (Binary op l r) =
     parenthesise (precedence op < p)
       (tokens_of (precedence op) l @ operator op # tokens_of (Suc (precedence op)) r)"
| "tokens_of p (Call f args) =
     tokens_of 4 f @ TLParen # concat (map (tokens_of 1) args) @ [TRParen]"

text \<open>The trees of the fragment: a call has at most one argument.\<close>

fun well_formed :: "expr \<Rightarrow> bool" where
  "well_formed (Literal n) = True"
| "well_formed (Identifier x) = True"
| "well_formed (UnaryPlus e) = well_formed e"
| "well_formed (UnaryMinus e) = well_formed e"
| "well_formed (Binary op l r) = (well_formed l \<and> well_formed r)"
| "well_formed (Call f args) = (well_formed f \<and> length args \<le> 1 \<and> list_all well_formed args)"

text \<open>
  What \<open>evaluateFormula\<close> makes of a number, and of an outcome of the engine: the
  last lines of the function, named so that a result can be stated for every value.
\<close>

definition number_result :: "string \<Rightarrow> jsnum \<Rightarrow> error + jsnum" where
  "number_result formula n =
     (if n = NaN \<or> n = PosInf \<or> n = NegInf
      then Inl (ErrorEvaluatingFormula formula (NotValidNumber formula))
      else Inr n)"

definition formula_result :: "string \<Rightarrow> exn + jsval \<Rightarrow> error + jsnum" where
  "formula_result formula r =
     (case r of
        Inl e \<Rightarrow> Inl (ErrorEvaluatingFormula formula (Thrown e))
      | Inr result \<Rightarrow>
          (case result of
             Number n \<Rightarrow> number_result formula n
           | _ \<Rightarrow> Inl (ErrorEvaluatingFormula formula (NotValidNumber formula))))"

text \<open>
  The tokens after which a production of the parser stops, and what each production
  does on a tree in standard notation followed by such tokens.
\<close>

definition no_call :: "token list \<Rightarrow> bool" where
  "no_call rest = (case rest of [] \<Rightarrow> True | t # _ \<Rightarrow> t \<noteq> TLParen)"

definition no_mul :: "token list \<Rightarrow> bool" where
  "no_mul rest =
     (case rest of [] \<Rightarrow> True | t # _ \<Rightarrow> t \<noteq> TLParen \<and> t \<noteq> TStar \<and> t \<noteq> TSlash)"

definition no_add :: "token list \<Rightarrow> bool" where
  "no_add rest =
     (case rest of
        [] \<Rightarrow> True
      | t # _ \<Rightarrow> t \<noteq> TLParen \<and> t \<noteq> TStar \<and> t \<noteq> TSlash \<and> t \<noteq> TPlus \<and> t \<noteq> TMinus)"

definition parses_call :: "expr \<Rightarrow> bool" where
  "parses_call e \<longleftrightarrow>
     (\<forall>rest. parse CallExpression (tokens_of 4 e @ rest) = parse (ArgumentsRest e) rest)"

definition parses_unary :: "expr \<Rightarrow> bool" where
  "parses_unary e \<longleftrightarrow>
     (\<forall>rest. no_call rest \<longrightarrow> parse UnaryExpression (tokens_of 3 e @ rest) = Inr (e, rest))"

definition parses_multiplicative :: "expr \<Rightarrow> bool" where
  "parses_multiplicative e \<longleftrightarrow>
     (\<forall>rest. no_call rest \<longrightarrow>
        parse MultiplicativeExpression (tokens_of 2 e @ rest)
          = parse (MultiplicativeRest e) rest)"

definition parses_additive :: "expr \<Rightarrow> bool" where
  "parses_additive e \<longleftrightarrow>
     (\<forall>rest. no_mul rest \<longrightarrow>
        parse AdditiveExpression (tokens_of 1 e @ rest) = parse (AdditiveRest e) rest)"

section \<open>Lemmas\<close>

subsection \<open>Rounding is exact on doubles\<close>

lemma bitlen_powi_bounds:
  fixes p :: int
  assumes "0 < p"
  shows "(2::rat) powi (bitlen p - 1) \<le> of_int p" "(of_int p :: rat) < 2 powi (bitlen p)"
proof -
  from bitlen_bounds[OF assms] have b: "2 ^ nat (bitlen p - 1) \<le> p" "p < 2 ^ nat (bitlen p)"
    by auto
  have pos: "1 \<le> bitlen p" using assms by (auto simp: bitlen_alt_def)
  have "(2::rat) powi (bitlen p - 1) = 2 ^ nat (bitlen p - 1)"
    using pos by (simp add: power_int_def)
  also have "\<dots> = of_int (2 ^ nat (bitlen p - 1))" by simp
  also have "\<dots> \<le> of_int p" using b(1) by (simp only: of_int_le_iff)
  finally show "(2::rat) powi (bitlen p - 1) \<le> of_int p" .
  have "(of_int p :: rat) < of_int (2 ^ nat (bitlen p))" using b(2) by (simp only: of_int_less_iff)
  also have "\<dots> = 2 powi (bitlen p)" using pos by (simp add: power_int_def)
  finally show "(of_int p :: rat) < 2 powi (bitlen p)" .
qed

lemma ilog2_bounds:
  assumes "0 < a"
  shows "2 powi (ilog2 a) \<le> a \<and> a < 2 powi (ilog2 a + 1)"
proof -
  obtain p q where pq: "quotient_of a = (p, q)" by (cases "quotient_of a")
  have q: "0 < q" using quotient_of_denom_pos[OF pq] .
  have a: "a = of_int p / of_int q" using quotient_of_div[OF pq] .
  have p: "0 < p" using assms q a by (simp add: zero_less_divide_iff)
  define d where "d = bitlen p - bitlen q"
  have up: "a < 2 powi (d + 1)"
  proof -
    have "of_int p < (2::rat) powi (bitlen p)" using bitlen_powi_bounds(2)[OF p] .
    also have "\<dots> = 2 powi (d + 1) * 2 powi (bitlen q - 1)"
      by (simp add: d_def flip: power_int_add)
    also have "\<dots> \<le> 2 powi (d + 1) * of_int q"
      using bitlen_powi_bounds(1)[OF q] by (intro mult_left_mono) auto
    finally show ?thesis using q by (simp add: a pos_divide_less_eq)
  qed
  have lo: "2 powi (d - 1) \<le> a"
  proof -
    have "2 powi (d - 1) * of_int q \<le> (2::rat) powi (d - 1) * 2 powi (bitlen q)"
      using bitlen_powi_bounds(2)[OF q] by (intro mult_left_mono) auto
    also have "\<dots> = 2 powi (bitlen p - 1)"
      by (simp add: d_def flip: power_int_add)
    also have "\<dots> \<le> of_int p" using bitlen_powi_bounds(1)[OF p] .
    finally show ?thesis using q by (simp add: a pos_le_divide_eq)
  qed
  have il: "ilog2 a = (if 2 powi d \<le> a then d else d - 1)"
    by (simp add: ilog2_def pq d_def Let_def)
  show ?thesis
  proof (cases "2 powi d \<le> a")
    case True
    then show ?thesis using up il by simp
  next
    case False
    then show ?thesis using lo il by simp
  qed
qed

lemma round_half_even_of_int: "round_half_even (of_int k) = k"
  by (simp add: round_half_even_def)

lemma to_double_exact:
  assumes x: "x = of_int n * 2 powi e" and n: "\<bar>n\<bar> < 2 ^ 53" and n0: "n \<noteq> 0"
    and e: "- 1074 \<le> e" "e \<le> 971"
  shows "to_double x = Fin x"
proof -
  define a where "a = \<bar>x\<bar>"
  have a: "a = of_int \<bar>n\<bar> * 2 powi e" by (simp add: a_def x abs_mult)
  have apos: "0 < a" using n0 by (simp add: a)
  have x0: "x \<noteq> 0" using apos by (auto simp: a_def)
  define E where "E = max (ilog2 a) (- 1022)"
  have alt: "a < 2 powi (53 + e)"
  proof -
    have "(of_int \<bar>n\<bar> :: rat) < of_int (2 ^ 53)" using n by (simp only: of_int_less_iff)
    then have "a < 2 ^ 53 * 2 powi e" unfolding a by (intro mult_strict_right_mono) auto
    also have "\<dots> = 2 powi (53 + e)" by (simp add: power_int_add)
    finally show ?thesis .
  qed
  have Ee: "E - 52 \<le> e"
  proof -
    have "(2::rat) powi (ilog2 a) < 2 powi (53 + e)"
      using ilog2_bounds[OF apos] alt by simp
    then have "ilog2 a < 53 + e"
      by (metis not_less power_int_increasing one_le_numeral)
    then show ?thesis using e by (simp add: E_def)
  qed
  define k where "k = \<bar>n\<bar> * 2 ^ nat (e - (E - 52))"
  have "a / 2 powi (E - 52) = of_int \<bar>n\<bar> * (2 powi e / 2 powi (E - 52))"
    by (simp add: a)
  also have "2 powi e / (2::rat) powi (E - 52) = 2 powi (e - (E - 52))"
    by (simp add: power_int_diff)
  also have "\<dots> = 2 ^ nat (e - (E - 52))" using Ee by (simp add: power_int_def)
  finally have quot: "a / 2 powi (E - 52) = of_int k" by (simp add: k_def)
  have m: "of_int (round_half_even (a / 2 powi (E - 52))) * 2 powi (E - 52) = a"
    unfolding quot round_half_even_of_int using quot [symmetric] by simp
  have small: "\<not> 2 powi 1024 \<le> a"
  proof -
    have "a < 2 powi (53 + e)" by (rule alt)
    also have "\<dots> \<le> 2 powi 1024" using e by (intro power_int_increasing) auto
    finally show ?thesis by simp
  qed
  have "to_double x = Fin (if 0 < x then a else - a)"
    using x0 m small apos
    by (simp add: to_double_def Let_def flip: a_def E_def)
  also have "(if 0 < x then a else - a) = x" by (auto simp: a_def)
  finally show ?thesis .
qed

lemma to_double_dyadic:
  assumes "x = of_int n / 2 ^ k" "\<bar>n\<bar> < 2 ^ 53" "n \<noteq> 0" "k \<le> 1074"
  shows "to_double x = Fin x"
proof (rule to_double_exact [where n = n and e = "- int k"])
  show "x = rat_of_int n * 2 powi - int k"
    using assms(1) by (simp add: power_int_minus divide_inverse)
qed (use assms in auto)

lemma to_double_0: "to_double 0 = Fin 0"
  by (simp add: to_double_def)

lemma to_double_2: "to_double 2 = Fin 2"
  by (rule to_double_dyadic [where n = 2 and k = 0]) auto

lemma to_double_half: "to_double (1 / 2) = Fin (1 / 2)"
  by (rule to_double_dyadic [where n = 1 and k = 1]) auto

lemma to_double_3_2: "to_double (3 / 2) = Fin (3 / 2)"
  by (rule to_double_dyadic [where n = 3 and k = 1]) auto

lemma to_double_7_2: "to_double (7 / 2) = Fin (7 / 2)"
  by (rule to_double_dyadic [where n = 7 and k = 1]) auto

lemma to_double_6: "to_double 6 = Fin 6"
  by (rule to_double_dyadic [where n = 6 and k = 0]) auto

lemma to_double_12: "to_double 12 = Fin 12"
  by (rule to_double_dyadic [where n = 12 and k = 0]) auto

lemma to_double_23_2: "to_double (23 / 2) = Fin (23 / 2)"
  by (rule to_double_dyadic [where n = 23 and k = 1]) auto

lemma to_double_45_2: "to_double (45 / 2) = Fin (45 / 2)"
  by (rule to_double_dyadic [where n = 45 and k = 1]) auto

lemma to_double_93_4: "to_double (93 / 4) = Fin (93 / 4)"
  by (rule to_double_dyadic [where n = 93 and k = 2]) auto

lemmas exact_doubles = to_double_0 to_double_2 to_double_half to_double_3_2 to_double_7_2
  to_double_6 to_double_12 to_double_23_2 to_double_45_2 to_double_93_4

subsection \<open>The parser consumes its input\<close>

text \<open>A parse returns a suffix no longer than its input, so the tests on the length
  in \<open>parse\<close> never fail.\<close>

lemma parse_rest: "parse p ts = Inr (e, rest) \<Longrightarrow> length rest \<le> length ts"
proof (induction "4 * length ts + rank p" arbitrary: p ts e rest rule: less_induct)
  case less
  note IH = less.hyps and prems = less.prems
  show ?case
  proof (cases p)
    case AdditiveExpression
    from prems obtain lhs r where
      a: "parse MultiplicativeExpression ts = Inr (lhs, r)" and b: "length r \<le> length ts"
      and c: "parse (AdditiveRest lhs) r = Inr (e, rest)"
      unfolding AdditiveExpression
      by (subst (asm) parse.simps) (auto split: sum.splits prod.splits if_splits)
    have "length rest \<le> length r"
      using b by (intro IH [OF _ c]) (simp add: AdditiveExpression)
    with b show ?thesis by simp
  next
    case (AdditiveRest lhs)
    show ?thesis
    proof (cases ts)
      case Nil
      with prems show ?thesis unfolding AdditiveRest by (subst (asm) parse.simps) simp
    next
      case (Cons t ts')
      show ?thesis
      proof (cases "t = TPlus \<or> t = TMinus")
        case True
        from prems True obtain op rhs r where
          a: "parse MultiplicativeExpression ts' = Inr (rhs, r)" and b: "length r \<le> length ts'"
          and c: "parse (AdditiveRest (Binary op lhs rhs)) r = Inr (e, rest)"
          unfolding Cons AdditiveRest
          by (subst (asm) parse.simps) (auto split: sum.splits prod.splits if_splits)
        have "length rest \<le> length r"
          using b by (intro IH [OF _ c]) (simp add: AdditiveRest Cons)
        with b show ?thesis by (simp add: Cons)
      next
        case False
        with prems show ?thesis
          unfolding Cons AdditiveRest by (subst (asm) parse.simps) (cases t; simp)
      qed
    qed
  next
    case MultiplicativeExpression
    from prems obtain lhs r where
      a: "parse UnaryExpression ts = Inr (lhs, r)" and b: "length r \<le> length ts"
      and c: "parse (MultiplicativeRest lhs) r = Inr (e, rest)"
      unfolding MultiplicativeExpression
      by (subst (asm) parse.simps) (auto split: sum.splits prod.splits if_splits)
    have "length rest \<le> length r"
      using b by (intro IH [OF _ c]) (simp add: MultiplicativeExpression)
    with b show ?thesis by simp
  next
    case (MultiplicativeRest lhs)
    show ?thesis
    proof (cases ts)
      case Nil
      with prems show ?thesis unfolding MultiplicativeRest by (subst (asm) parse.simps) simp
    next
      case (Cons t ts')
      show ?thesis
      proof (cases "t = TStar \<or> t = TSlash")
        case True
        from prems True obtain op rhs r where
          a: "parse UnaryExpression ts' = Inr (rhs, r)" and b: "length r \<le> length ts'"
          and c: "parse (MultiplicativeRest (Binary op lhs rhs)) r = Inr (e, rest)"
          unfolding Cons MultiplicativeRest
          by (subst (asm) parse.simps) (auto split: sum.splits prod.splits if_splits)
        have "length rest \<le> length r"
          using b by (intro IH [OF _ c]) (simp add: MultiplicativeRest Cons)
        with b show ?thesis by (simp add: Cons)
      next
        case False
        with prems show ?thesis
          unfolding Cons MultiplicativeRest by (subst (asm) parse.simps) (cases t; simp)
      qed
    qed
  next
    case UnaryExpression
    show ?thesis
    proof (cases "\<exists>ts'. ts = TPlus # ts' \<or> ts = TMinus # ts'")
      case True
      then obtain ts' where ts: "ts = TPlus # ts' \<or> ts = TMinus # ts'" by blast
      from prems ts obtain operand where
        a: "parse UnaryExpression ts' = Inr (operand, rest)"
        unfolding UnaryExpression
        by (subst (asm) parse.simps) (auto split: sum.splits prod.splits)
      have "length rest \<le> length ts'"
        using ts by (intro IH [OF _ a]) (auto simp: UnaryExpression)
      with ts show ?thesis by auto
    next
      case False
      with prems have a: "parse CallExpression ts = Inr (e, rest)"
        unfolding UnaryExpression
        by (subst (asm) parse.simps) (auto split: list.splits token.splits)
      show ?thesis by (intro IH [OF _ a]) (simp add: UnaryExpression)
    qed
  next
    case CallExpression
    show ?thesis
    proof (cases ts)
      case Nil
      with prems show ?thesis unfolding CallExpression by (subst (asm) parse.simps) simp
    next
      case (Cons t ts')
      show ?thesis
      proof (cases t)
        case (TNum n)
        from prems have a: "parse (ArgumentsRest (Literal n)) ts' = Inr (e, rest)"
          unfolding CallExpression Cons TNum by (subst (asm) parse.simps) simp
        have "length rest \<le> length ts'" by (intro IH [OF _ a]) (simp add: CallExpression Cons)
        then show ?thesis by (simp add: Cons)
      next
        case (TId x)
        from prems have a: "parse (ArgumentsRest (Identifier x)) ts' = Inr (e, rest)"
          unfolding CallExpression Cons TId by (subst (asm) parse.simps) simp
        have "length rest \<le> length ts'" by (intro IH [OF _ a]) (simp add: CallExpression Cons)
        then show ?thesis by (simp add: Cons)
      next
        case TLParen
        from prems obtain inner r where
          a: "parse AdditiveExpression ts' = Inr (inner, TRParen # r)"
          and b: "length r \<le> length ts'"
          and c: "parse (ArgumentsRest inner) r = Inr (e, rest)"
          unfolding CallExpression Cons TLParen
          by (subst (asm) parse.simps)
            (auto split: sum.splits prod.splits if_splits list.splits token.splits)
        have "length rest \<le> length r"
          using b by (intro IH [OF _ c]) (simp add: CallExpression Cons)
        with b show ?thesis by (simp add: Cons)
      qed (use prems in \<open>simp_all add: CallExpression Cons parse.simps(6)\<close>)
    qed
  next
    case (ArgumentsRest callee)
    show ?thesis
    proof (cases "\<exists>ts'. ts = TLParen # ts'")
      case False
      with prems show ?thesis
        unfolding ArgumentsRest
        by (subst (asm) parse.simps) (auto split: list.splits token.splits)
    next
      case True
      then obtain ts' where ts: "ts = TLParen # ts'" by blast
      show ?thesis
      proof (cases "\<exists>ts''. ts' = TRParen # ts''")
        case True
        then obtain ts'' where ts': "ts' = TRParen # ts''" by blast
        from prems have a: "parse (ArgumentsRest (Call callee [])) ts'' = Inr (e, rest)"
          unfolding ArgumentsRest ts ts' by (subst (asm) parse.simps) simp
        have "length rest \<le> length ts''"
          by (intro IH [OF _ a]) (simp add: ArgumentsRest ts ts')
        then show ?thesis by (simp add: ts ts')
      next
        case False
        from prems False obtain argument r where
          a: "parse AdditiveExpression ts' = Inr (argument, TRParen # r)"
          and b: "length r \<le> length ts'"
          and c: "parse (ArgumentsRest (Call callee [argument])) r = Inr (e, rest)"
          unfolding ArgumentsRest ts
          by (subst (asm) parse.simps)
            (auto split: sum.splits prod.splits if_splits list.splits token.splits)
        have "length rest \<le> length r"
          using b by (intro IH [OF _ c]) (simp add: ArgumentsRest ts)
        with b show ?thesis by (simp add: ts)
      qed
    qed
  qed
qed

subsection \<open>Unfolding on concrete inputs\<close>

lemmas validator_defs = validateFormula_def is_space_def is_digit_def ALLOWED_OPERATORS_def
  ALLOWED_FUNCTIONS_def

lemmas lexer_defs = is_blank_def starts_number_def numeric_literal_def is_id_start_def
  is_id_part_def cons_token_def digits_value_def Let_def

lemmas number_defs = Number_add_def Number_subtract_def Number_multiply_def Number_divide_def
  Number_unaryMinus_def is_infinite_def is_zero_def sign_bit_def magnitude_def signed_zero_def
  signed_infinity_def arithmetic_def isNaN_def isFinite_def

lemmas engine_defs = new_Function_def plain_identifier_def reserved_words_def declared_def
  parse_body_def parse.simps apply_binary_def call_builtin_def first_argument_def min_of_def
  max_of_def round_number_def floor_number_def ceil_number_def evaluation_context_def

subsection \<open>The context of an evaluation\<close>

lemma map_of_evaluation_context:
  "map_of (evaluation_context v) =
     (map_of v)
       (''min'' \<mapsto> Builtin Math_min, ''max'' \<mapsto> Builtin Math_max,
        ''round'' \<mapsto> Builtin Math_round, ''floor'' \<mapsto> Builtin Math_floor,
        ''ceil'' \<mapsto> Builtin Math_ceil)"
  by (simp add: evaluation_context_def AList.update_conv')

lemma keys_evaluation_context:
  "set (map fst (evaluation_context v))
     = set (map fst v) \<union> {''min'', ''max'', ''round'', ''floor'', ''ceil''}"
proof -
  have "fst ` set (evaluation_context v)
          = {''ceil''} \<union> ({''floor''} \<union> ({''round''} \<union> ({''max''} \<union> ({''min''}
              \<union> fst ` set v))))"
    unfolding evaluation_context_def AList.dom_update ..
  then show ?thesis by auto
qed

lemma distinct_evaluation_context:
  assumes "distinct (map fst v)"
  shows "distinct (map fst (evaluation_context v))"
  using assms unfolding evaluation_context_def by (intro AList.distinct_update)

lemma plain_evaluation_context:
  assumes "list_all plain_identifier (map fst v)"
  shows "list_all plain_identifier (map fst (evaluation_context v))"
proof -
  have "\<forall>k \<in> {''min'', ''max'', ''round'', ''floor'', ''ceil''}. plain_identifier k"
    by (simp add: plain_identifier_def is_id_start_def is_id_part_def is_digit_def
        reserved_words_def)
  with assms show ?thesis
    unfolding list_all_iff keys_evaluation_context by blast
qed

lemma lex_min_W:
  "lex ''return min(W);'' = Inr [TReturn, TId ''min'', TLParen, TId ''W'', TRParen, TSemicolon]"
  by (simp add: lexer_defs is_digit_def)

lemma parse_min_W:
  "parse_body [TReturn, TId ''min'', TLParen, TId ''W'', TRParen, TSemicolon]
     = Inr (Call (Identifier ''min'') [Identifier ''W''])"
  by (simp add: parse_body_def parse.simps)

lemma min_of_single: "isFinite w \<Longrightarrow> min_of [w] = w"
  by (cases w) (simp_all add: min_of_def isFinite_def)

subsection \<open>A call and the store\<close>

text \<open>The result of a call on a store is \<open>evaluateFormula\<close> at the object passed; the
  store it leaves is the old one, with the context appended if the formula was valid.\<close>

lemma evaluateFormula_call_result:
  "fst (evaluateFormula_call Function formula variables store)
     = evaluateFormula Function formula (store ! variables)"
  by (simp add: evaluateFormula_call_def validateFormula_call_def evaluateFormula_def
      evaluation_context_def Let_def)

lemma evaluateFormula_call_store:
  "snd (evaluateFormula_call Function formula variables store) = store
   \<or> snd (evaluateFormula_call Function formula variables store)
       = store @ [evaluation_context (store ! variables)]"
  by (simp add: evaluateFormula_call_def validateFormula_call_def evaluation_context_def Let_def)

lemma evaluateFormula_call_frame:
  assumes "r < length store"
  shows "snd (evaluateFormula_call Function formula variables store) ! r = store ! r"
  using assms evaluateFormula_call_store [of Function formula variables store]
  by (auto simp: nth_append)

subsection \<open>The parser reads standard notation\<close>

lemma arguments_done: "no_call rest \<Longrightarrow> parse (ArgumentsRest e) rest = Inr (e, rest)"
  by (subst parse.simps) (auto simp: no_call_def split: list.splits token.splits)

lemma multiplicative_done: "no_mul rest \<Longrightarrow> parse (MultiplicativeRest e) rest = Inr (e, rest)"
  by (subst parse.simps) (auto simp: no_mul_def split: list.splits token.splits)

lemma additive_done: "no_add rest \<Longrightarrow> parse (AdditiveRest e) rest = Inr (e, rest)"
  by (subst parse.simps) (auto simp: no_add_def split: list.splits token.splits)

lemma no_add_no_mul: "no_add rest \<Longrightarrow> no_mul rest"
  by (auto simp: no_add_def no_mul_def split: list.splits)

lemma no_mul_no_call: "no_mul rest \<Longrightarrow> no_call rest"
  by (auto simp: no_call_def no_mul_def split: list.splits)

text \<open>The first token of an expression is never one that ends or continues another.\<close>

lemma tokens_of_head:
  "\<exists>t ts. tokens_of p e = t # ts \<and> t \<noteq> TRParen \<and> t \<noteq> TStar \<and> t \<noteq> TSlash \<and> t \<noteq> TSemicolon
     \<and> t \<noteq> TReturn"
proof (induction e arbitrary: p)
  case (Binary op l r)
  from Binary.IH(1) [of "precedence op"] show ?case
    by (auto simp: parenthesise_def)
next
  case (Call f args)
  from Call.IH(1) [of 4] show ?case by auto
qed (auto simp: parenthesise_def)

lemma unary_to_multiplicative:
  assumes "parses_unary e" "tokens_of 2 e = tokens_of 3 e"
  shows "parses_multiplicative e"
  unfolding parses_multiplicative_def
proof (intro allI impI)
  fix rest assume "no_call rest"
  with assms(1) have "parse UnaryExpression (tokens_of 3 e @ rest) = Inr (e, rest)"
    by (simp add: parses_unary_def)
  then show "parse MultiplicativeExpression (tokens_of 2 e @ rest)
               = parse (MultiplicativeRest e) rest"
    by (subst parse.simps) (simp add: assms(2))
qed

lemma multiplicative_to_additive:
  assumes "parses_multiplicative e" "tokens_of 1 e = tokens_of 2 e"
  shows "parses_additive e"
  unfolding parses_additive_def
proof (intro allI impI)
  fix rest assume r: "no_mul rest"
  with assms(1) have "parse MultiplicativeExpression (tokens_of 2 e @ rest) = Inr (e, rest)"
    by (simp add: parses_multiplicative_def no_mul_no_call multiplicative_done)
  then show "parse AdditiveExpression (tokens_of 1 e @ rest) = parse (AdditiveRest e) rest"
    unfolding assms(2) by (subst parse.simps) simp
qed

lemma additive_to_call:
  assumes "parses_additive e" "tokens_of 4 e = TLParen # tokens_of 1 e @ [TRParen]"
  shows "parses_call e"
  unfolding parses_call_def
proof
  fix rest
  have "no_mul (TRParen # rest)" by (simp add: no_mul_def)
  with assms(1) have "parse AdditiveExpression (tokens_of 1 e @ TRParen # rest)
                        = parse (AdditiveRest e) (TRParen # rest)"
    by (simp add: parses_additive_def)
  also have "\<dots> = Inr (e, TRParen # rest)"
    by (rule additive_done) (simp add: no_add_def)
  finally show "parse CallExpression (tokens_of 4 e @ rest) = parse (ArgumentsRest e) rest"
    by (subst parse.simps) (simp add: assms(2))
qed

lemma call_to_unary:
  assumes "parses_call e" "tokens_of 3 e = tokens_of 4 e"
    and "\<exists>t ts. tokens_of 4 e = t # ts \<and> t \<noteq> TPlus \<and> t \<noteq> TMinus"
  shows "parses_unary e"
  unfolding parses_unary_def
proof (intro allI impI)
  fix rest assume r: "no_call rest"
  from assms(3) obtain t ts where ts: "tokens_of 4 e = t # ts" "t \<noteq> TPlus" "t \<noteq> TMinus"
    by blast
  have "parse UnaryExpression (tokens_of 3 e @ rest) = parse CallExpression (tokens_of 4 e @ rest)"
    using ts by (subst parse.simps) (cases t; simp add: assms(2))
  also have "\<dots> = parse (ArgumentsRest e) rest"
    using assms(1) by (simp add: parses_call_def)
  also have "\<dots> = Inr (e, rest)" by (rule arguments_done [OF r])
  finally show "parse UnaryExpression (tokens_of 3 e @ rest) = Inr (e, rest)" .
qed

lemma tokens_of_call_head:
  "\<exists>t ts. tokens_of 4 e = t # ts \<and> t \<noteq> TPlus \<and> t \<noteq> TMinus"
proof (induction e)
  case (Binary op l r)
  show ?case by (cases op) (simp_all add: parenthesise_def precedence_def)
next
  case (Call f args)
  then show ?case by auto
qed (simp_all add: parenthesise_def)

lemma parses_primary:
  assumes "parses_call e" "tokens_of 3 e = tokens_of 4 e" "tokens_of 2 e = tokens_of 3 e"
    "tokens_of 1 e = tokens_of 2 e"
  shows "parses_unary e \<and> parses_multiplicative e \<and> parses_additive e"
proof -
  have u: "parses_unary e"
    by (rule call_to_unary [OF assms(1,2) tokens_of_call_head])
  have m: "parses_multiplicative e"
    by (rule unary_to_multiplicative [OF u assms(3)])
  have a: "parses_additive e"
    by (rule multiplicative_to_additive [OF m assms(4)])
  from u m a show ?thesis by blast
qed

lemma parses_all:
  "well_formed e \<Longrightarrow>
     parses_call e \<and> parses_unary e \<and> parses_multiplicative e \<and> parses_additive e"
proof (induction e)
  case (Literal n)
  have c: "parses_call (Literal n)"
    unfolding parses_call_def by (subst parse.simps) simp
  from parses_primary [OF c] c show ?case by simp
next
  case (Identifier x)
  have c: "parses_call (Identifier x)"
    unfolding parses_call_def by (subst parse.simps) simp
  from parses_primary [OF c] c show ?case by simp
next
  case (UnaryPlus e)
  then have IH: "parses_unary e" by simp
  have u: "parses_unary (UnaryPlus e)"
    unfolding parses_unary_def
  proof (intro allI impI)
    fix rest assume "no_call rest"
    with IH have "parse UnaryExpression (tokens_of 3 e @ rest) = Inr (e, rest)"
      by (simp add: parses_unary_def)
    then show "parse UnaryExpression (tokens_of 3 (UnaryPlus e) @ rest)
                 = Inr (UnaryPlus e, rest)"
      by (subst parse.simps) (simp add: parenthesise_def)
  qed
  have m: "parses_multiplicative (UnaryPlus e)"
    by (rule unary_to_multiplicative [OF u]) (simp add: parenthesise_def)
  have a: "parses_additive (UnaryPlus e)"
    by (rule multiplicative_to_additive [OF m]) (simp add: parenthesise_def)
  have c: "parses_call (UnaryPlus e)"
    by (rule additive_to_call [OF a]) (simp add: parenthesise_def)
  from u m a c show ?case by blast
next
  case (UnaryMinus e)
  then have IH: "parses_unary e" by simp
  have u: "parses_unary (UnaryMinus e)"
    unfolding parses_unary_def
  proof (intro allI impI)
    fix rest assume "no_call rest"
    with IH have "parse UnaryExpression (tokens_of 3 e @ rest) = Inr (e, rest)"
      by (simp add: parses_unary_def)
    then show "parse UnaryExpression (tokens_of 3 (UnaryMinus e) @ rest)
                 = Inr (UnaryMinus e, rest)"
      by (subst parse.simps) (simp add: parenthesise_def)
  qed
  have m: "parses_multiplicative (UnaryMinus e)"
    by (rule unary_to_multiplicative [OF u]) (simp add: parenthesise_def)
  have a: "parses_additive (UnaryMinus e)"
    by (rule multiplicative_to_additive [OF m]) (simp add: parenthesise_def)
  have c: "parses_call (UnaryMinus e)"
    by (rule additive_to_call [OF a]) (simp add: parenthesise_def)
  from u m a c show ?case by blast
next
  case (Binary op l r)
  then have l: "parses_multiplicative l" "parses_additive l"
    and r: "parses_unary r" "parses_multiplicative r" by simp_all
  show ?case
  proof (cases "op = Mul \<or> op = Div")
    case True
    then have p: "precedence op = 2" by (auto simp: precedence_def)
    have m: "parses_multiplicative (Binary op l r)"
      unfolding parses_multiplicative_def
    proof (intro allI impI)
      fix rest assume nc: "no_call rest"
      have "no_call (operator op # tokens_of 3 r @ rest)"
        using True by (auto simp: no_call_def operator_def)
      with l(1) have "parse MultiplicativeExpression
                        (tokens_of 2 l @ operator op # tokens_of 3 r @ rest)
                      = parse (MultiplicativeRest l) (operator op # tokens_of 3 r @ rest)"
        by (simp add: parses_multiplicative_def)
      also have "\<dots> = parse (MultiplicativeRest (Binary op l r)) rest"
        using True r(1) nc
        by (subst parse.simps) (auto simp: operator_def parses_unary_def)
      finally show "parse MultiplicativeExpression (tokens_of 2 (Binary op l r) @ rest)
                      = parse (MultiplicativeRest (Binary op l r)) rest"
        by (simp add: p parenthesise_def numeral_3_eq_3)
    qed
    have a: "parses_additive (Binary op l r)"
      by (rule multiplicative_to_additive [OF m]) (simp add: p parenthesise_def)
    have c: "parses_call (Binary op l r)"
      by (rule additive_to_call [OF a]) (simp add: p parenthesise_def)
    have u: "parses_unary (Binary op l r)"
      by (rule call_to_unary [OF c _ tokens_of_call_head]) (simp add: p parenthesise_def)
    from u m a c show ?thesis by blast
  next
    case False
    then have op: "op = Add \<or> op = Sub" by (cases op) auto
    then have p: "precedence op = 1" by (auto simp: precedence_def)
    have a: "parses_additive (Binary op l r)"
      unfolding parses_additive_def
    proof (intro allI impI)
      fix rest assume nm: "no_mul rest"
      have "no_mul (operator op # tokens_of 2 r @ rest)"
        using op by (auto simp: no_mul_def operator_def)
      with l(2) have "parse AdditiveExpression
                        (tokens_of 1 l @ operator op # tokens_of 2 r @ rest)
                      = parse (AdditiveRest l) (operator op # tokens_of 2 r @ rest)"
        by (simp add: parses_additive_def)
      also have "\<dots> = parse (AdditiveRest (Binary op l r)) rest"
      proof -
        have "parse MultiplicativeExpression (tokens_of 2 r @ rest) = Inr (r, rest)"
          using r(2) nm by (simp add: parses_multiplicative_def no_mul_no_call multiplicative_done)
        then show ?thesis
          using op by (subst parse.simps) (auto simp: operator_def)
      qed
      finally show "parse AdditiveExpression (tokens_of 1 (Binary op l r) @ rest)
                      = parse (AdditiveRest (Binary op l r)) rest"
        by (simp add: p parenthesise_def numeral_2_eq_2)
    qed
    have c: "parses_call (Binary op l r)"
      by (rule additive_to_call [OF a]) (simp add: p parenthesise_def)
    have u: "parses_unary (Binary op l r)"
      by (rule call_to_unary [OF c _ tokens_of_call_head]) (simp add: p parenthesise_def)
    have m: "parses_multiplicative (Binary op l r)"
      by (rule unary_to_multiplicative [OF u]) (simp add: p parenthesise_def)
    from u m a c show ?thesis by blast
  qed
next
  case (Call f args)
  then have f: "parses_call f" and wf: "length args \<le> 1"
    and args: "\<And>a. a \<in> set args \<Longrightarrow> parses_additive a"
    by (auto simp: list_all_iff)
  have c: "parses_call (Call f args)"
    unfolding parses_call_def
  proof
    fix rest
    have "parse CallExpression (tokens_of 4 (Call f args) @ rest)
            = parse (ArgumentsRest f) (TLParen # concat (map (tokens_of 1) args) @ TRParen # rest)"
      using f by (simp add: parses_call_def)
    also have "\<dots> = parse (ArgumentsRest (Call f args)) rest"
    proof (cases args)
      case Nil
      then show ?thesis by (subst parse.simps) simp
    next
      case (Cons a as)
      with wf have as: "as = []" by simp
      from tokens_of_head [of 1 a] obtain t ts where
        ts: "tokens_of 1 a = t # ts" and t: "t \<noteq> TRParen" by blast
      have "no_mul (TRParen # rest)" by (simp add: no_mul_def)
      with args [of a] have "parse AdditiveExpression (tokens_of 1 a @ TRParen # rest)
                               = parse (AdditiveRest a) (TRParen # rest)"
        by (simp add: parses_additive_def Cons)
      also have "\<dots> = Inr (a, TRParen # rest)"
        by (rule additive_done) (simp add: no_add_def)
      finally have inner: "parse AdditiveExpression (t # ts @ TRParen # rest)
                             = Inr (a, TRParen # rest)"
        unfolding ts by simp
      have ts': "tokens_of (Suc 0) a = t # ts" using ts by simp
      show ?thesis
        unfolding Cons as using t inner
        by (subst parse.simps) (cases t; simp add: ts')
    qed
    finally show "parse CallExpression (tokens_of 4 (Call f args) @ rest)
                    = parse (ArgumentsRest (Call f args)) rest" .
  qed
  from parses_primary [OF c] c show ?case by simp
qed

lemma parse_body_tokens_of:
  assumes "well_formed e"
  shows "parse_body (TReturn # tokens_of 1 e @ [TSemicolon]) = Inr e"
proof -
  from tokens_of_head [of 1 e] obtain t ts where
    ts: "tokens_of 1 e = t # ts" and t: "t \<noteq> TSemicolon" by blast
  have "no_mul [TSemicolon]" by (simp add: no_mul_def)
  with parses_all [OF assms]
  have "parse AdditiveExpression (tokens_of 1 e @ [TSemicolon])
          = parse (AdditiveRest e) [TSemicolon]"
    by (simp add: parses_additive_def)
  also have "\<dots> = Inr (e, [TSemicolon])"
    by (rule additive_done) (simp add: no_add_def)
  finally have "parse AdditiveExpression (t # ts @ [TSemicolon]) = Inr (e, [TSemicolon])"
    unfolding ts by simp
  moreover have "tokens_of (Suc 0) e = t # ts" using ts by simp
  ultimately show ?thesis
    using t by (cases t) (simp_all add: parse_body_def)
qed

text \<open>
  A formula whose tokens are those of a tree in standard notation evaluates to the
  value of that tree.
\<close>

lemma evaluateFormula_tree:
  assumes plain: "list_all plain_identifier (map fst v)" and dist: "distinct (map fst v)"
    and valid: "validateFormula f v" and wf: "well_formed e"
    and tokens: "lex (''return '' @ f @ '';'') = Inr (TReturn # tokens_of 1 e @ [TSemicolon])"
    and decl: "list_all (declared (map fst (evaluation_context v))) (tokens_of 1 e)"
  shows "evaluateFormula new_Function f v = formula_result f (evaluate (evaluation_context v) e)"
proof -
  define ctx where "ctx = evaluation_context v"
  have names: "list_all plain_identifier (map fst ctx)" "distinct (map fst ctx)"
    unfolding ctx_def
    by (rule plain_evaluation_context [OF plain], rule distinct_evaluation_context [OF dist])
  have decl': "list_all (declared (map fst ctx)) (TReturn # tokens_of 1 e @ [TSemicolon])"
    using decl by (simp add: declared_def ctx_def)
  have tree: "parse_body (TReturn # tokens_of 1 e @ [TSemicolon]) = Inr e"
    by (rule parse_body_tokens_of [OF wf])
  have call: "new_Function (map fst ctx) (''return '' @ f @ '';'') (map snd ctx) = evaluate ctx e"
    unfolding new_Function_def tokens sum.case using names decl' tree
    by (simp add: zip_map_fst_snd)
  have "evaluateFormula new_Function f v = formula_result f (evaluate ctx e)"
    unfolding evaluateFormula_def Let_def ctx_def [symmetric] call
    using valid
    by (simp add: formula_result_def number_result_def isNaN_def isFinite_def
        split: sum.splits jsval.splits jsnum.splits)
  then show ?thesis
    by (simp only: ctx_def)
qed

lemma to_double_51_2: "to_double (51 / 2) = Fin (51 / 2)"
  by (rule to_double_dyadic [where n = 51 and k = 1]) auto

lemmas symbolic_defs = evaluateFormula_def validator_defs lexer_defs engine_defs
  arithmetic_def isNaN_def isFinite_def symbol_def precedence_def operation_def number_result_def

section \<open>Properties\<close>

text \<open>
  C1 (evaluation of the code at the input that breaks the claim). The formula
  \<^verbatim>\<open>"V + 1"\<close> names the identifier \<^verbatim>\<open>V\<close>, which is neither a key of
  \<^verbatim>\<open>{W: 10}\<close> nor a function name, and the validator accepts it: the letter is
  taken for the placeholder that stands for a replaced variable.
\<close>

theorem validateFormula_accepts_placeholder_identifier:
  "validateFormula ''V + 1'' [(''W'', Number (Fin 10))] = True"
  by (simp add: validator_defs)

text \<open>
  C2 (evaluation of the code at the input that breaks the claim). With the keys
  supplied in the order \<^verbatim>\<open>H\<close>, \<^verbatim>\<open>H_drawer\<close> the formula \<^verbatim>\<open>"H_drawer"\<close> is
  rejected: the alternation takes \<^verbatim>\<open>H\<close> first and leaves \<^verbatim>\<open>_drawer\<close> behind.
  With the keys in the other order the same formula is accepted.
\<close>

theorem validateFormula_prefix_key_order:
  "validateFormula ''H_drawer'' [(''H'', Number (Fin 30)), (''H_drawer'', Number (Fin 6))]
     = False
   \<and> validateFormula ''H_drawer'' [(''H_drawer'', Number (Fin 6)), (''H'', Number (Fin 30))]
     = True"
  by (simp add: validator_defs)

text \<open>
  C10 (evaluation of the code at the input that breaks the claim). The bindings
  \<^verbatim>\<open>{T: 0.75, T_door: 0.75}\<close> and \<^verbatim>\<open>{T_door: 0.75, T: 0.75}\<close> have exactly the same
  keys (and the same values), and the validator rejects \<^verbatim>\<open>"T_door"\<close> with the first
  and accepts it with the second: the alternation of variable names is built in the
  order of the keys, so \<^verbatim>\<open>T\<close> is taken first and \<^verbatim>\<open>_door\<close> is left behind.
\<close>

theorem validateFormula_same_keys_different_verdict:
  "set (map fst [(''T'', Number (Fin (3 / 4))), (''T_door'', Number (Fin (3 / 4)))])
     = set (map fst [(''T_door'', Number (Fin (3 / 4))), (''T'', Number (Fin (3 / 4)))])
   \<and> validateFormula ''T_door''
         [(''T'', Number (Fin (3 / 4))), (''T_door'', Number (Fin (3 / 4)))]
     = False
   \<and> validateFormula ''T_door''
         [(''T_door'', Number (Fin (3 / 4))), (''T'', Number (Fin (3 / 4)))]
     = True"
  by (simp add: validator_defs insert_commute)

text \<open>
  C7. The evaluator computes arithmetic with standard precedence, \<^verbatim>\<open>*\<close> and \<^verbatim>\<open>/\<close>
  before \<^verbatim>\<open>+\<close> and \<^verbatim>\<open>-\<close>, operators of one level from left to right.
  \<^item> For every formula that the validator accepts and whose tokens are those of an
    expression tree \<open>e\<close> in standard notation (over variables that are distinct plain
    identifiers), \<open>evaluateFormula\<close> returns the value of \<open>e\<close>.
  \<^item> For all operators \<open>op1\<close>, \<open>op2\<close> and all numbers \<open>a\<close>, \<open>b\<close>, \<open>c\<close>, the formula
    \<^verbatim>\<open>A op1 B op2 C\<close> evaluates to \<open>a op1 (b op2 c)\<close> when \<open>op2\<close> binds tighter than
    \<open>op1\<close>, and to \<open>(a op1 b) op2 c\<close> otherwise; a value that is not a finite number is
    the error of C5.
  \<^item> \<^verbatim>\<open>evaluateFormula("W - 2*T", {W: 24, T: 0.75})\<close> is \<open>22.5\<close> and
    \<^verbatim>\<open>evaluateFormula("W/2 - 0.5", {W: 24})\<close> is \<open>11.5\<close>; moreover \<^verbatim>\<open>"W - T - T"\<close> is
    \<open>(24 - 0.75) - 0.75 = 22.5\<close> and \<^verbatim>\<open>"W / 2 / 2"\<close> is \<open>(24 / 2) / 2 = 6\<close>.
\<close>

theorem evaluateFormula_standard_precedence:
  "(list_all plain_identifier (map fst v) \<longrightarrow> distinct (map fst v) \<longrightarrow>
      validateFormula f v \<longrightarrow> well_formed e \<longrightarrow>
      lex (''return '' @ f @ '';'') = Inr (TReturn # tokens_of 1 e @ [TSemicolon]) \<longrightarrow>
      list_all (declared (map fst (evaluation_context v))) (tokens_of 1 e) \<longrightarrow>
      evaluateFormula new_Function f v = formula_result f (evaluate (evaluation_context v) e))
   \<and> evaluateFormula new_Function (''A '' @ [symbol op1] @ '' B '' @ [symbol op2] @ '' C'')
         [(''A'', Number a), (''B'', Number b), (''C'', Number c)]
       = number_result (''A '' @ [symbol op1] @ '' B '' @ [symbol op2] @ '' C'')
           (if precedence op1 < precedence op2
            then operation op1 a (operation op2 b c)
            else operation op2 (operation op1 a b) c)
   \<and> evaluateFormula new_Function ''W - 2*T''
         [(''W'', Number (Fin 24)), (''T'', Number (Fin (3 / 4)))]
       = Inr (Fin (45 / 2))
   \<and> evaluateFormula new_Function ''W/2 - 0.5'' [(''W'', Number (Fin 24))]
       = Inr (Fin (23 / 2))
   \<and> evaluateFormula new_Function ''W - T - T''
         [(''W'', Number (Fin 24)), (''T'', Number (Fin (3 / 4)))]
       = Inr (Fin (45 / 2))
   \<and> evaluateFormula new_Function ''W / 2 / 2'' [(''W'', Number (Fin 24))] = Inr (Fin 6)"
proof (intro conjI impI)
  show "evaluateFormula new_Function (''A '' @ [symbol op1] @ '' B '' @ [symbol op2] @ '' C'')
         [(''A'', Number a), (''B'', Number b), (''C'', Number c)]
       = number_result (''A '' @ [symbol op1] @ '' B '' @ [symbol op2] @ '' C'')
           (if precedence op1 < precedence op2
            then operation op1 a (operation op2 b c)
            else operation op2 (operation op1 a b) c)"
    by (cases op1; cases op2) (simp_all add: symbolic_defs)
next
  assume "list_all plain_identifier (map fst v)" "distinct (map fst v)" "validateFormula f v"
    "well_formed e"
    "lex (''return '' @ f @ '';'') = Inr (TReturn # tokens_of 1 e @ [TSemicolon])"
    "list_all (declared (map fst (evaluation_context v))) (tokens_of 1 e)"
  then show "evaluateFormula new_Function f v
      = formula_result f (evaluate (evaluation_context v) e)"
    by (rule evaluateFormula_tree)
qed (simp_all add: evaluateFormula_def validator_defs lexer_defs engine_defs number_defs
       exact_doubles)

text \<open>
  The first part at \<^verbatim>\<open>"W + 2*T"\<close> with \<^verbatim>\<open>{W: 24, T: 0.75}\<close>: the tree is the sum of
  \<open>W\<close> and the product, and the value \<open>24 + 1.5 = 25.5\<close>.
\<close>

theorem evaluateFormula_standard_precedence_witness:
  "list_all plain_identifier (map fst [(''W'', Number (Fin 24)), (''T'', Number (Fin (3 / 4)))])
   \<and> distinct (map fst [(''W'', Number (Fin 24)), (''T'', Number (Fin (3 / 4)))])
   \<and> validateFormula ''W + 2*T'' [(''W'', Number (Fin 24)), (''T'', Number (Fin (3 / 4)))]
   \<and> well_formed (Binary Add (Identifier ''W'') (Binary Mul (Literal (Fin 2)) (Identifier ''T'')))
   \<and> lex (''return '' @ ''W + 2*T'' @ '';'')
       = Inr (TReturn
              # tokens_of 1
                  (Binary Add (Identifier ''W'') (Binary Mul (Literal (Fin 2)) (Identifier ''T'')))
              @ [TSemicolon])
   \<and> list_all
         (declared
            (map fst (evaluation_context [(''W'', Number (Fin 24)), (''T'', Number (Fin (3 / 4)))])))
         (tokens_of 1
            (Binary Add (Identifier ''W'') (Binary Mul (Literal (Fin 2)) (Identifier ''T''))))
   \<and> evaluateFormula new_Function ''W + 2*T''
         [(''W'', Number (Fin 24)), (''T'', Number (Fin (3 / 4)))]
       = Inr (Fin (51 / 2))"
proof -
  let ?v = "[(''W'', Number (Fin 24)), (''T'', Number (Fin (3 / 4)))]"
  let ?e = "Binary Add (Identifier ''W'') (Binary Mul (Literal (Fin 2)) (Identifier ''T''))"
  have a: "list_all plain_identifier (map fst ?v)"
    by (simp add: plain_identifier_def is_id_start_def reserved_words_def)
  have b: "distinct (map fst ?v)" by simp
  have c: "validateFormula ''W + 2*T'' ?v" by (simp add: validator_defs)
  have d: "well_formed ?e" by simp
  have e: "lex (''return '' @ ''W + 2*T'' @ '';'') = Inr (TReturn # tokens_of 1 ?e @ [TSemicolon])"
    by (simp add: lexer_defs is_digit_def exact_doubles precedence_def operator_def
        parenthesise_def)
  have f: "list_all (declared (map fst (evaluation_context ?v))) (tokens_of 1 ?e)"
    by (simp add: declared_def evaluation_context_def precedence_def operator_def
        parenthesise_def)
  have g: "formula_result ''W + 2*T'' (evaluate (evaluation_context ?v) ?e) = Inr (Fin (51 / 2))"
    by (simp add: formula_result_def number_result_def evaluation_context_def apply_binary_def
        number_defs exact_doubles to_double_51_2)
  from evaluateFormula_standard_precedence [of ?v "''W + 2*T''" ?e] a b c d e f g
  show ?thesis by simp
qed

text \<open>
  C8. \<^verbatim>\<open>evaluateFormula("round(H_drawer / 2)", {H_drawer: 7})\<close> is exactly \<open>4\<close>:
  \<^verbatim>\<open>Math.round\<close> takes the half-way value \<open>3.5\<close> upwards.
\<close>

theorem evaluateFormula_round_half_example:
  "evaluateFormula new_Function ''round(H_drawer / 2)'' [(''H_drawer'', Number (Fin 7))]
     = Inr (Fin 4)"
  by (simp add: evaluateFormula_def validator_defs lexer_defs engine_defs number_defs
      exact_doubles)

text \<open>
  C3 as stated fails: \<^verbatim>\<open>evaluateFormula("min(W)", {W: 10})\<close> returns \<open>10\<close>.
  \<^verbatim>\<open>Math.min\<close> is called with the one argument it is given.
\<close>

theorem min_one_argument_counterexample:
  "evaluateFormula new_Function ''min(W)'' [(''W'', Number (Fin 10))] = Inr (Fin 10)"
  by (simp add: evaluateFormula_def validator_defs lexer_defs engine_defs number_defs)

text \<open>
  C3 (amended). For every binding whose keys are distinct plain identifiers, with
  \<^verbatim>\<open>W\<close> bound to a finite number \<open>w\<close>, and on which the validator accepts
  \<^verbatim>\<open>"min(W)"\<close>, \<^verbatim>\<open>evaluateFormula("min(W)", v)\<close> returns \<open>w\<close>: the count of
  arguments of a call is not checked.
\<close>

theorem min_one_argument:
  assumes plain: "list_all plain_identifier (map fst v)" and dist: "distinct (map fst v)"
    and W: "map_of v ''W'' = Some (Number w)" and fin: "isFinite w"
    and valid: "validateFormula ''min(W)'' v"
  shows "evaluateFormula new_Function ''min(W)'' v = Inr w"
proof -
  define ctx where "ctx = evaluation_context v"
  have names: "list_all plain_identifier (map fst ctx)" "distinct (map fst ctx)"
    unfolding ctx_def
    by (rule plain_evaluation_context [OF plain], rule distinct_evaluation_context [OF dist])
  have Wkey: "''W'' \<in> set (map fst v)"
    using W by (metis map_of_eq_None_iff option.distinct(1) set_map)
  have decl: "list_all (declared (map fst ctx))
                [TReturn, TId ''min'', TLParen, TId ''W'', TRParen, TSemicolon]"
    using Wkey by (simp add: declared_def ctx_def keys_evaluation_context del: set_map)
  have lookups:
    "map_of ctx ''min'' = Some (Builtin Math_min)" "map_of ctx ''W'' = Some (Number w)"
    using W by (simp_all add: ctx_def map_of_evaluation_context)
  have run: "new_Function (map fst ctx) ''return min(W);'' (map snd ctx) = Inr (Number w)"
    using names decl lookups fin
    by (simp add: new_Function_def lex_min_W parse_min_W zip_map_fst_snd call_builtin_def
        min_of_single del: lex.simps)
  show ?thesis
    using valid run fin
    by (simp add: evaluateFormula_def Let_def isNaN_def isFinite_def flip: ctx_def)
qed

theorem min_one_argument_witness:
  "list_all plain_identifier (map fst [(''W'', Number (Fin 10))])
   \<and> distinct (map fst [(''W'', Number (Fin 10))])
   \<and> map_of [(''W'', Number (Fin 10))] ''W'' = Some (Number (Fin 10)) \<and> isFinite (Fin 10)
   \<and> validateFormula ''min(W)'' [(''W'', Number (Fin 10))]
   \<and> evaluateFormula new_Function ''min(W)'' [(''W'', Number (Fin 10))] = Inr (Fin 10)"
proof -
  have a: "list_all plain_identifier (map fst [(''W'', Number (Fin 10))])"
    by (simp add: plain_identifier_def is_id_start_def reserved_words_def)
  have b: "distinct (map fst [(''W'', Number (Fin 10))])" by simp
  have c: "map_of [(''W'', Number (Fin 10))] ''W'' = Some (Number (Fin 10))" by simp
  have d: "isFinite (Fin 10)" by (simp add: isFinite_def)
  have e: "validateFormula ''min(W)'' [(''W'', Number (Fin 10))]"
    by (simp add: validator_defs)
  from min_one_argument [OF a b c d e] a b c d e show ?thesis by blast
qed

text \<open>
  C4 as stated fails: with no depth formula the depth is the number \<open>0\<close>, the same
  record as when the depth formula is \<^verbatim>\<open>"0"\<close>.
\<close>

theorem evaluatePartDimensions_absent_is_zero_counterexample:
  "evaluatePartDimensions new_Function
      \<lparr>formula_width = Some ''W'', formula_height = Some ''H'', formula_depth = None\<rparr>
      [(''W'', Number (Fin 24)), (''H'', Number (Fin 30))]
     = Inr \<lparr>width = Fin 24, height = Fin 30, depth = Fin 0\<rparr>
   \<and> evaluatePartDimensions new_Function
      \<lparr>formula_width = Some ''W'', formula_height = Some ''H'', formula_depth = Some ''0''\<rparr>
      [(''W'', Number (Fin 24)), (''H'', Number (Fin 30))]
     = Inr \<lparr>width = Fin 24, height = Fin 30, depth = Fin 0\<rparr>"
  by (simp add: evaluatePartDimensions_def evaluateFormula_def validator_defs lexer_defs
      engine_defs number_defs exact_doubles)

text \<open>
  C4 (amended). For every part and binding, \<^verbatim>\<open>evaluatePartDimensions\<close> returns the
  record \<open>d\<close> exactly when, for each axis, the field of \<open>d\<close> is the number \<open>0\<close> if the
  formula of the axis is absent (or empty) and is the value that \<^verbatim>\<open>evaluateFormula\<close>
  returns for it if the formula is present.
\<close>

theorem evaluatePartDimensions_axes:
  "evaluatePartDimensions Function part variables = Inr d \<longleftrightarrow>
     axis_value Function (formula_width part) variables (width d)
     \<and> axis_value Function (formula_height part) variables (height d)
     \<and> axis_value Function (formula_depth part) variables (depth d)"
proof (cases d)
  case (fields w h dp)
  show ?thesis
    unfolding fields evaluatePartDimensions_def axis_value_def Let_def
    by (cases "formula_width part"; cases "formula_height part"; cases "formula_depth part")
      (auto split: sum.splits)
qed

theorem evaluatePartDimensions_axes_witness:
  "evaluatePartDimensions new_Function
      \<lparr>formula_width = Some ''W - 2*T'', formula_height = Some ''D'', formula_depth = None\<rparr>
      [(''W'', Number (Fin 24)), (''D'', Number (Fin 12)), (''T'', Number (Fin (3 / 4)))]
     = Inr \<lparr>width = Fin (45 / 2), height = Fin 12, depth = Fin 0\<rparr>"
proof -
  have w: "evaluateFormula new_Function ''W - 2*T''
             [(''W'', Number (Fin 24)), (''D'', Number (Fin 12)), (''T'', Number (Fin (3 / 4)))]
           = Inr (Fin (45 / 2))"
    by (simp add: evaluateFormula_def validator_defs lexer_defs engine_defs number_defs
        exact_doubles)
  have h: "evaluateFormula new_Function ''D''
             [(''W'', Number (Fin 24)), (''D'', Number (Fin 12)), (''T'', Number (Fin (3 / 4)))]
           = Inr (Fin 12)"
    by (simp add: evaluateFormula_def validator_defs lexer_defs engine_defs number_defs)
  show ?thesis
    unfolding evaluatePartDimensions_axes by (simp add: axis_value_def w h)
qed



text \<open>
  C6. If the validator rejects a formula, \<^verbatim>\<open>evaluateFormula\<close> fails with the
  \<^verbatim>\<open>Invalid formula\<close> error whatever the engine would do: the engine is not
  consulted.
\<close>

theorem evaluateFormula_invalid_fails_fast:
  "\<not> validateFormula f v \<Longrightarrow> evaluateFormula Function f v = Inl (InvalidFormula f)"
  by (simp add: evaluateFormula_def)

theorem evaluateFormula_invalid_fails_fast_witness:
  "\<not> validateFormula ''X + 1'' [(''W'', Number (Fin 10))]
   \<and> evaluateFormula new_Function ''X + 1'' [(''W'', Number (Fin 10))]
       = Inl (InvalidFormula ''X + 1'')"
proof -
  have a: "\<not> validateFormula ''X + 1'' [(''W'', Number (Fin 10))]"
    by (simp add: validator_defs)
  from evaluateFormula_invalid_fails_fast [OF a] a show ?thesis by blast
qed

text \<open>
  C9. Two calls in a row on the same formula and the same \<^verbatim>\<open>variables\<close> object give
  the same verdict (\<^verbatim>\<open>validateFormula\<close>) and the same result, value or error
  (\<^verbatim>\<open>evaluateFormula\<close>): the first call leaves the object as it found it. Nor does
  an evaluation change the verdict of a later validation of any formula.
\<close>

theorem repeated_calls_agree:
  assumes live: "variables < length store"
  shows "fst (validateFormula_call f variables (snd (validateFormula_call f variables store)))
           = fst (validateFormula_call f variables store)
       \<and> fst (evaluateFormula_call Function f variables
                (snd (evaluateFormula_call Function f variables store)))
           = fst (evaluateFormula_call Function f variables store)
       \<and> fst (validateFormula_call f' variables
                (snd (evaluateFormula_call Function f variables store)))
           = fst (validateFormula_call f' variables store)"
  using evaluateFormula_call_frame [OF live, of Function f variables]
  by (simp add: evaluateFormula_call_result) (simp add: validateFormula_call_def)

theorem repeated_calls_agree_witness:
  "(0::nat) < length [[(''W'', Number (Fin 24))]]
   \<and> fst (evaluateFormula_call new_Function ''W/2'' 0 [[(''W'', Number (Fin 24))]]) = Inr (Fin 12)
   \<and> fst (evaluateFormula_call new_Function ''W/2'' 0
            (snd (evaluateFormula_call new_Function ''W/2'' 0 [[(''W'', Number (Fin 24))]])))
       = Inr (Fin 12)"
proof -
  have live: "(0::nat) < length [[(''W'', Number (Fin 24))]]" by simp
  have first: "fst (evaluateFormula_call new_Function ''W/2'' 0 [[(''W'', Number (Fin 24))]])
                 = Inr (Fin 12)"
    unfolding evaluateFormula_call_result
    by (simp add: evaluateFormula_def validator_defs lexer_defs engine_defs number_defs
        exact_doubles)
  from repeated_calls_agree [OF live, of "''W/2''" new_Function] first live
  show ?thesis by simp
qed

end
